theory Spec2Isabelle
  imports Complex_Main "HOL-Library.AList"
begin

section \<open>The command line interface of ibp\_neurips19 (cli.py)\<close>

text \<open>
  The module \<^verbatim>\<open>cli.py\<close> declares three click commands, \<^verbatim>\<open>basic\<close>,
  \<^verbatim>\<open>experiment\<close> and \<^verbatim>\<open>pgd\<close>. They are orchestration: the work is done
  by collaborators that live outside the file (\<^verbatim>\<open>train_classifier\<close>,
  \<^verbatim>\<open>compute_robustness\<close>, the \<^verbatim>\<open>models\<close> module, \<^verbatim>\<open>torch.load\<close> and
  \<^verbatim>\<open>torch.save\<close>, the click library, Python's number formatting). The embedding
  keeps the control flow of the three commands as written and takes the
  collaborators as parameters, so every theorem holds for any behaviour of theirs.

  Conventions of the embedding:
  \<^item> Python values that flow through the file are values of \<open>pyval\<close>; a dictionary is
    an association list in insertion order, updated with \<open>AList.update\<close> (replace in
    place, or append a new key at the end, as a Python dict does).
  \<^item> A float is represented by the rational number it denotes. The file only compares
    floats that come from distinct literals (or from the same expression \<^verbatim>\<open>2 / 255\<close>),
    so the comparisons agree with the rational ones. NaN and infinities are not
    represented.
  \<^item> An exception is a value of \<open>error\<close>; a command maps a world to the world it
    leaves behind together with the exception that ended it, if any.
  \<^item> The world holds what the commands can observe or change: the lines printed, the
    checkpoint files on disk, and a trace of the calls made to collaborators. The trace
    is a ghost component: it records that a call was made, and with which arguments.
\<close>

subsection \<open>Python values, errors, the world\<close>

datatype pynum = PyInt int | PyFloat rat

fun num_val :: "pynum \<Rightarrow> rat" where
  "num_val (PyInt i) = of_int i"
| "num_val (PyFloat r) = r"

text \<open>Python's \<^verbatim>\<open>==\<close> on numbers compares values across int and float.\<close>

definition py_eq :: "pynum \<Rightarrow> pynum \<Rightarrow> bool" where
  "py_eq a b = (num_val a = num_val b)"

datatype pyval =
    VNone
  | VBool bool
  | VNum pynum
  | VStr string
  | VList "pyval list"
  | VDict "(string \<times> pyval) list"

datatype error =
    KeyError string
  | TypeError
  | AttributeError string
  | FileNotFoundError string
  | UnpicklingError string
  | NoSuchOption string
  | BadOptionUsage string
  | BadParameter string
  | UsageError string
  | Raised string

text \<open>
  A file on disk either unpickles to a value or is not a readable pickle.
\<close>

datatype stored = Pickled pyval | Corrupt

text \<open>The arguments \<^verbatim>\<open>pgd\<close> passes to \<^verbatim>\<open>compute_robustness\<close> (the fields carry
  the prefix \<open>kw_\<close>).\<close>

record 'net robustness_kwargs =
  kw_net :: 'net
  kw_dataset :: string
  kw_device :: string
  kw_attack_name :: string
  kw_restarts :: pyval
  kw_subset :: pyval
  kw_subset_seed :: pyval
  kw_attack_kwargs :: "(string \<times> pyval) list"

text \<open>The object \<^verbatim>\<open>compute_robustness\<close> returns; \<^verbatim>\<open>pgd\<close> reads three attributes.\<close>

record results =
  robustness :: pyval
  fooling_rate :: pyval
  sorted_errors :: pyval

datatype 'net call =
    ModelCtor string
  | FitToDataset 'net string
  | TorchLoad string
  | LoadStateDict 'net pyval
  | ComputeRobustness "'net robustness_kwargs"
  | TorchSave pyval string
  | TrainClassifier "(string \<times> pyval) list"

record 'net world =
  stdout :: "string list"
  files :: "string \<rightharpoonup> stored"
  trace :: "'net call list"

text \<open>
  Python built-ins used by the file and by click's type conversion:
  \<^verbatim>\<open>float(s)\<close>, \<^verbatim>\<open>int(s)\<close> (\<open>None\<close> when they raise \<^verbatim>\<open>ValueError\<close>) and
  \<^verbatim>\<open>str(x)\<close> for a number, which is what an f-string field and \<^verbatim>\<open>print\<close> apply.
\<close>

record python =
  float_of_str :: "string \<Rightarrow> rat option"
  int_of_str :: "string \<Rightarrow> int option"
  str_of_num :: "pynum \<Rightarrow> string"

text \<open>
  The collaborators of this repository and of torch. A call either raises or
  returns. \<open>models_dict name\<close> is \<^verbatim>\<open>models.__dict__[name]()\<close>: \<open>None\<close> when the module
  has no such name (a \<^verbatim>\<open>KeyError\<close>), otherwise what the constructor does.
  \<open>fit_to_dataset\<close> and \<open>load_state_dict\<close> mutate the network object in place;
  they return the state of that object after the call. None of them touches the
  checkpoint files, except \<open>train_classifier\<close>, which may rewrite the disk.
\<close>

record 'net collaborators =
  models_dict :: "string \<Rightarrow> (error + 'net) option"
  fit_to_dataset :: "'net \<Rightarrow> string \<Rightarrow> error + 'net"
  load_state_dict :: "'net \<Rightarrow> pyval \<Rightarrow> error + 'net"
  cuda_is_available :: bool
  compute_robustness :: "'net robustness_kwargs \<Rightarrow> error + results"
  train_classifier ::
    "(string \<times> pyval) list \<Rightarrow> (string \<rightharpoonup> stored) \<Rightarrow> (string \<rightharpoonup> stored) \<times> error option"

text \<open>\<^verbatim>\<open>print(a, b, ...)\<close> writes the fields separated by single spaces, as one line.\<close>

fun join_sp :: "string list \<Rightarrow> string" where
  "join_sp [] = []"
| "join_sp [s] = s"
| "join_sp (s # t # ss) = s @ '' '' @ join_sp (t # ss)"

definition print :: "string list \<Rightarrow> 'net world \<Rightarrow> 'net world" where
  "print args w = w\<lparr>stdout := stdout w @ [join_sp args]\<rparr>"

definition log_call :: "'net call \<Rightarrow> 'net world \<Rightarrow> 'net world" where
  "log_call c w = w\<lparr>trace := trace w @ [c]\<rparr>"

text \<open>\<^verbatim>\<open>str.lower()\<close> on the ASCII range (the dataset names are ASCII).\<close>

definition lower_char :: "char \<Rightarrow> char" where
  "lower_char c =
     (case map_of (zip ''ABCDEFGHIJKLMNOPQRSTUVWXYZ'' ''abcdefghijklmnopqrstuvwxyz'') c of
        Some l \<Rightarrow> l
      | None \<Rightarrow> c)"

definition lower :: "string \<Rightarrow> string" where
  "lower s = map lower_char s"

subsection \<open>Dictionary and list operations used on the checkpoint\<close>

text \<open>\<^verbatim>\<open>obj[key]\<close> with a string key: a dict without the key raises \<^verbatim>\<open>KeyError\<close>,
  any other value of the model raises \<^verbatim>\<open>TypeError\<close>.\<close>

fun getitem :: "pyval \<Rightarrow> string \<Rightarrow> error + pyval" where
  "getitem (VDict d) k = (case map_of d k of None \<Rightarrow> Inl (KeyError k) | Some v \<Rightarrow> Inr v)"
| "getitem _ k = Inl TypeError"

text \<open>\<^verbatim>\<open>key in obj\<close> and \<^verbatim>\<open>obj[key] = v\<close>; they are only reached for a dict.\<close>

fun contains :: "pyval \<Rightarrow> string \<Rightarrow> bool" where
  "contains (VDict d) k = (map_of d k \<noteq> None)"
| "contains _ k = False"

fun setitem :: "pyval \<Rightarrow> string \<Rightarrow> pyval \<Rightarrow> pyval" where
  "setitem (VDict d) k v = VDict (AList.update k v d)"
| "setitem x k v = x"

text \<open>\<^verbatim>\<open>obj.append(x)\<close>: only a list has the method.\<close>

fun list_append :: "pyval \<Rightarrow> pyval \<Rightarrow> error + pyval" where
  "list_append (VList xs) x = Inr (VList (xs @ [x]))"
| "list_append _ x = Inl (AttributeError ''append'')"

subsection \<open>torch.load and torch.save\<close>

text \<open>
  \<^verbatim>\<open>torch.load\<close> raises when the file is missing or does not unpickle.
  \<^verbatim>\<open>torch.save\<close> replaces the file; a failure of the write itself is outside the model.
\<close>

definition torch_load :: "string \<Rightarrow> 'net world \<Rightarrow> error + pyval" where
  "torch_load path w =
     (case files w path of
        None \<Rightarrow> Inl (FileNotFoundError path)
      | Some Corrupt \<Rightarrow> Inl (UnpicklingError path)
      | Some (Pickled v) \<Rightarrow> Inr v)"

definition torch_save :: "pyval \<Rightarrow> string \<Rightarrow> 'net world \<Rightarrow> 'net world" where
  "torch_save obj path w = w\<lparr>files := (files w)(path \<mapsto> Pickled obj)\<rparr>"

subsection \<open>The pgd command\<close>

text \<open>\<^verbatim>\<open>itertools.product\<close> of five lists: the rightmost list varies fastest.\<close>

definition product5 ::
  "'a list \<Rightarrow> 'b list \<Rightarrow> 'c list \<Rightarrow> 'd list \<Rightarrow> 'e list \<Rightarrow> ('a \<times> 'b \<times> 'c \<times> 'd \<times> 'e) list" where
  "product5 as bs cs ds es =
     concat (map (\<lambda>a. concat (map (\<lambda>b. concat (map (\<lambda>c. concat (map (\<lambda>d.
       map (\<lambda>e. (a, b, c, d, e)) es) ds)) cs)) bs)) as)"

type_synonym pgd_experiment = "string \<times> pynum \<times> string \<times> pynum \<times> pynum"

definition pgd_datasets :: "string list" where
  "pgd_datasets = [''MNIST'', ''CIFAR10'']"

definition pgd_epsilons :: "pynum list" where
  "pgd_epsilons = [PyFloat (1/100), PyFloat (3/100), PyFloat (1/10), PyFloat (2/10)]"

definition model_size :: "string list" where
  "model_size = [''small'', ''medium'']"

definition pgd_learning_rates :: "pynum list" where
  "pgd_learning_rates = [PyInt 0, PyFloat (1/10), PyFloat (1/100), PyFloat (1/1000)]"

definition test_epsilons :: "pynum list" where
  "test_epsilons = [PyFloat (2/255), PyFloat (1/10), PyFloat (2/10), PyFloat (3/10)]"

text \<open>The body of the generator's loop: \<^verbatim>\<open>continue\<close> drops the tuple, \<^verbatim>\<open>yield\<close> keeps it.\<close>

fun experiments_loop :: "pgd_experiment list \<Rightarrow> pgd_experiment list" where
  "experiments_loop [] = []"
| "experiments_loop ((dataset, epsilon, model, learning_rate, test_epsilon) # rest) =
     (if dataset = ''CIFAR10'' then
        (if \<not> py_eq test_epsilon (PyFloat (2/255)) \<or> \<not> py_eq epsilon (PyFloat (1/100))
         then experiments_loop rest
         else (dataset, epsilon, model, learning_rate, test_epsilon) # experiments_loop rest)
      else if py_eq test_epsilon (PyFloat (2/255)) \<or> py_eq epsilon (PyFloat (1/100))
      then experiments_loop rest
      else (dataset, epsilon, model, learning_rate, test_epsilon) # experiments_loop rest)"

definition experiments :: "pgd_experiment list" where
  "experiments =
     experiments_loop
       (product5 pgd_datasets pgd_epsilons model_size pgd_learning_rates test_epsilons)"

definition checkpoint_file :: "python \<Rightarrow> pgd_experiment \<Rightarrow> string" where
  "checkpoint_file py e =
     (case e of (dataset, epsilon, model, learning_rate, test_epsilon) \<Rightarrow>
        if py_eq learning_rate (PyInt 0)
        then ''dm_torch/'' @ lower dataset @ ''-'' @ model @ ''-'' @ str_of_num py epsilon @ ''.pth''
        else dataset @ ''-'' @ model @ ''_cnn-'' @ str_of_num py epsilon
             @ ''/'' @ str_of_num py learning_rate @ ''/checkpoint.pth'')"

text \<open>The record appended under \<^verbatim>\<open>'PGD'\<close>, a dict literal with seven keys.\<close>

definition attack_record :: "pyval \<Rightarrow> pyval \<Rightarrow> pyval \<Rightarrow> pynum \<Rightarrow> results \<Rightarrow> pyval" where
  "attack_record seed subset' restarts test_epsilon res =
     VDict [(''seed'', seed),
            (''subset'', subset'),
            (''restarts'', restarts),
            (''epsilon'', VNum test_epsilon),
            (''robustness'', robustness res),
            (''fooling_rate'', fooling_rate res),
            (''sorted_errors'', sorted_errors res)]"

text \<open>
  The block under \<^verbatim>\<open>if run:\<close> for one experiment, statement by statement. Each
  collaborator call is logged before it is made; the first exception ends the block.
\<close>

definition pgd_run ::
  "'net collaborators \<Rightarrow> pyval \<Rightarrow> pyval \<Rightarrow> pyval \<Rightarrow> string \<Rightarrow> pgd_experiment
     \<Rightarrow> 'net world \<Rightarrow> 'net world \<times> error option" where
  "pgd_run env subset' restarts seed ckpt_file e w0 =
     (case e of (dataset, epsilon, model, learning_rate, test_epsilon) \<Rightarrow>
      let w1 = log_call (ModelCtor (model @ ''_cnn'')) w0 in
      (case models_dict env (model @ ''_cnn'') of
        None \<Rightarrow> (w1, Some (KeyError (model @ ''_cnn'')))
      | Some (Inl err) \<Rightarrow> (w1, Some err)
      | Some (Inr net0) \<Rightarrow>
      let w2 = log_call (FitToDataset net0 dataset) w1 in
      (case fit_to_dataset env net0 dataset of
        Inl err \<Rightarrow> (w2, Some err)
      | Inr net1 \<Rightarrow>
      let w3 = log_call (TorchLoad ckpt_file) w2 in
      (case torch_load ckpt_file w3 of
        Inl err \<Rightarrow> (w3, Some err)
      | Inr checkpoint \<Rightarrow>
      (case getitem checkpoint ''state_dict'' of
        Inl err \<Rightarrow> (w3, Some err)
      | Inr state_dict \<Rightarrow>
      let w4 = log_call (LoadStateDict net1 state_dict) w3 in
      (case load_state_dict env net1 state_dict of
        Inl err \<Rightarrow> (w4, Some err)
      | Inr net2 \<Rightarrow>
      let kwargs = \<lparr>kw_net = net2, kw_dataset = dataset,
                    kw_device = (if cuda_is_available env then ''cuda'' else ''cpu''),
                    kw_attack_name = ''PGD'', kw_restarts = restarts, kw_subset = subset',
                    kw_subset_seed = seed,
                    kw_attack_kwargs = [(''epsilon'', VNum test_epsilon)]\<rparr>;
          w5 = log_call (ComputeRobustness kwargs) w4 in
      (case compute_robustness env kwargs of
        Inl err \<Rightarrow> (w5, Some err)
      | Inr res \<Rightarrow>
      let checkpoint1 = (if \<not> contains checkpoint ''PGD''
                         then setitem checkpoint ''PGD'' (VList []) else checkpoint) in
      (case getitem checkpoint1 ''PGD'' of
        Inl err \<Rightarrow> (w5, Some err)
      | Inr pgd_list \<Rightarrow>
      (case list_append pgd_list (attack_record seed subset' restarts test_epsilon res) of
        Inl err \<Rightarrow> (w5, Some err)
      | Inr pgd_list' \<Rightarrow>
      let checkpoint2 = setitem checkpoint1 ''PGD'' pgd_list';
          w6 = log_call (TorchSave checkpoint2 ckpt_file) w5 in
      (torch_save checkpoint2 ckpt_file w6, None))))))))))"

text \<open>One iteration of the \<^verbatim>\<open>for\<close> loop of \<^verbatim>\<open>pgd\<close>, after the index test.\<close>

definition pgd_body ::
  "python \<Rightarrow> 'net collaborators \<Rightarrow> bool \<Rightarrow> pyval \<Rightarrow> pyval \<Rightarrow> pyval \<Rightarrow> nat \<Rightarrow> pgd_experiment
     \<Rightarrow> 'net world \<Rightarrow> 'net world \<times> error option" where
  "pgd_body py env run subset' restarts seed i e w =
     (case e of (dataset, epsilon, model, learning_rate, test_epsilon) \<Rightarrow>
      let ckpt_file = checkpoint_file py e;
          w1 = print [str_of_num py (PyInt (int i)),
                      dataset @ ''-'' @ model @ ''-'' @ str_of_num py epsilon,
                      str_of_num py learning_rate,
                      str_of_num py test_epsilon] w
      in if run then pgd_run env subset' restarts seed ckpt_file e w1 else (w1, None))"

fun pgd_loop ::
  "python \<Rightarrow> 'net collaborators \<Rightarrow> bool \<Rightarrow> nat option \<Rightarrow> pyval \<Rightarrow> pyval \<Rightarrow> pyval
     \<Rightarrow> (nat \<times> pgd_experiment) list \<Rightarrow> 'net world \<Rightarrow> 'net world \<times> error option" where
  "pgd_loop py env run index subset' restarts seed [] w = (w, None)"
| "pgd_loop py env run index subset' restarts seed ((i, e) # rest) w =
     (if index \<noteq> None \<and> Some i \<noteq> index
      then pgd_loop py env run index subset' restarts seed rest w
      else case pgd_body py env run subset' restarts seed i e w of
             (w', Some err) \<Rightarrow> (w', Some err)
           | (w', None) \<Rightarrow> pgd_loop py env run index subset' restarts seed rest w')"

definition pgd ::
  "python \<Rightarrow> 'net collaborators \<Rightarrow> bool \<Rightarrow> nat option \<Rightarrow> pyval \<Rightarrow> pyval \<Rightarrow> pyval
     \<Rightarrow> 'net world \<Rightarrow> 'net world \<times> error option" where
  "pgd py env run index subset' restarts seed w =
     pgd_loop py env run index subset' restarts seed (enumerate 0 experiments) w"

subsection \<open>The click layer\<close>

text \<open>
  click is a library outside the repository. The model covers what the three commands
  rely on: options are declared with their names, a destination parameter, a type and a
  default; the command line is scanned left to right, a later occurrence of an option
  replacing an earlier one; then every declared parameter is converted by its type, the
  callback being invoked only when all conversions succeed and no positional argument
  is left over. A boolean flag declared as \<^verbatim>\<open>'-v/-t'\<close> has primary names that set it
  and secondary names that clear it. Not modelled: the automatic \<^verbatim>\<open>--help\<close> option,
  values attached with \<^verbatim>\<open>=\<close>, grouped one-letter options, environment variables;
  such command lines are rejected by the model as unknown options.
\<close>

datatype param_type = BOOL | STRING | Path | FloatRange "rat option" | IntRange "int option"

record option_decl =
  opts :: "string list"
  secondary_opts :: "string list"
  dest :: string
  is_flag :: bool
  ptype :: param_type
  default_value :: pyval

datatype raw = RawFlag bool | RawValue string

fun find_option :: "option_decl list \<Rightarrow> string \<Rightarrow> (option_decl \<times> bool) option" where
  "find_option [] a = None"
| "find_option (d # ds) a =
     (if a \<in> set (opts d) then Some (d, True)
      else if a \<in> set (secondary_opts d) then Some (d, False)
      else find_option ds a)"

definition looks_like_option :: "string \<Rightarrow> bool" where
  "looks_like_option a = (case a of c # _ # _ \<Rightarrow> c = CHR ''-'' | _ \<Rightarrow> False)"

fun parse_args ::
  "option_decl list \<Rightarrow> string list \<Rightarrow> (string \<times> raw) list \<Rightarrow> string list
     \<Rightarrow> error + (string \<times> raw) list \<times> string list" where
  "parse_args ds [] acc largs = Inr (acc, largs)"
| "parse_args ds [a] acc largs =
     (if a = ''--'' then Inr (acc, largs)
      else if looks_like_option a then
        (case find_option ds a of
           None \<Rightarrow> Inl (NoSuchOption a)
         | Some (d, primary) \<Rightarrow>
             if is_flag d then Inr (AList.update (dest d) (RawFlag primary) acc, largs)
             else Inl (BadOptionUsage a))
      else Inr (acc, largs @ [a]))"
| "parse_args ds (a # v # rest) acc largs =
     (if a = ''--'' then Inr (acc, largs @ v # rest)
      else if looks_like_option a then
        (case find_option ds a of
           None \<Rightarrow> Inl (NoSuchOption a)
         | Some (d, primary) \<Rightarrow>
             if is_flag d
             then parse_args ds (v # rest) (AList.update (dest d) (RawFlag primary) acc) largs
             else parse_args ds rest (AList.update (dest d) (RawValue v) acc) largs)
      else parse_args ds (v # rest) acc (largs @ [a]))"

text \<open>
  Type conversion. \<^verbatim>\<open>FloatRange(min=m)\<close> and \<^verbatim>\<open>IntRange(min=m)\<close> fail on a value below
  \<open>m\<close>; without a bound they accept every number.
\<close>

fun convert :: "python \<Rightarrow> param_type \<Rightarrow> string \<Rightarrow> string \<Rightarrow> error + pyval" where
  "convert py BOOL name s = Inr (VStr s)"
| "convert py STRING name s = Inr (VStr s)"
| "convert py Path name s = Inr (VStr s)"
| "convert py (FloatRange mn) name s =
     (case float_of_str py s of
        None \<Rightarrow> Inl (BadParameter name)
      | Some x \<Rightarrow>
          (case mn of
             None \<Rightarrow> Inr (VNum (PyFloat x))
           | Some m \<Rightarrow> if x < m then Inl (BadParameter name) else Inr (VNum (PyFloat x))))"
| "convert py (IntRange mn) name s =
     (case int_of_str py s of
        None \<Rightarrow> Inl (BadParameter name)
      | Some x \<Rightarrow>
          (case mn of
             None \<Rightarrow> Inr (VNum (PyInt x))
           | Some m \<Rightarrow> if x < m then Inl (BadParameter name) else Inr (VNum (PyInt x))))"

definition process_param :: "python \<Rightarrow> option_decl \<Rightarrow> (string \<times> raw) list \<Rightarrow> error + pyval" where
  "process_param py d acc =
     (case map_of acc (dest d) of
        None \<Rightarrow> Inr (default_value d)
      | Some (RawFlag b) \<Rightarrow> Inr (VBool b)
      | Some (RawValue s) \<Rightarrow> convert py (ptype d) (dest d) s)"

fun process_params ::
  "python \<Rightarrow> option_decl list \<Rightarrow> (string \<times> raw) list \<Rightarrow> error + (string \<times> pyval) list" where
  "process_params py [] acc = Inr []"
| "process_params py (d # ds) acc =
     (case process_param py d acc of
        Inl err \<Rightarrow> Inl err
      | Inr v \<Rightarrow>
          (case process_params py ds acc of
             Inl err \<Rightarrow> Inl err
           | Inr kwargs \<Rightarrow> Inr ((dest d, v) # kwargs)))"

definition parse_command ::
  "python \<Rightarrow> option_decl list \<Rightarrow> string list \<Rightarrow> error + (string \<times> pyval) list" where
  "parse_command py ds argv =
     (case parse_args ds argv [] [] of
        Inl err \<Rightarrow> Inl err
      | Inr (acc, largs) \<Rightarrow>
          (case process_params py ds acc of
             Inl err \<Rightarrow> Inl err
           | Inr kwargs \<Rightarrow>
               if largs \<noteq> [] then Inl (UsageError ''Got unexpected extra argument'')
               else Inr kwargs))"

text \<open>
  \<^verbatim>\<open>ctx.invoke(command, **kwargs)\<close> fills in the declared default of every parameter
  that the caller did not pass.
\<close>

definition fill_defaults ::
  "option_decl list \<Rightarrow> (string \<times> pyval) list \<Rightarrow> (string \<times> pyval) list" where
  "fill_defaults ds kwargs =
     kwargs @ map (\<lambda>d. (dest d, default_value d)) (filter (\<lambda>d. map_of kwargs (dest d) = None) ds)"

text \<open>Binding a keyword argument of a Python function that has a default value.\<close>

definition kwarg :: "(string \<times> pyval) list \<Rightarrow> string \<Rightarrow> pyval \<Rightarrow> pyval" where
  "kwarg kwargs name dflt = (case map_of kwargs name of None \<Rightarrow> dflt | Some v \<Rightarrow> v)"

definition kwarg_flag :: "(string \<times> pyval) list \<Rightarrow> string \<Rightarrow> bool" where
  "kwarg_flag kwargs name = (map_of kwargs name = Some (VBool True))"

definition kwarg_index :: "(string \<times> pyval) list \<Rightarrow> string \<Rightarrow> nat option" where
  "kwarg_index kwargs name =
     (case map_of kwargs name of Some (VNum (PyInt n)) \<Rightarrow> Some (nat n) | _ \<Rightarrow> None)"

subsection \<open>The basic command\<close>

definition basic_params :: "option_decl list" where
  "basic_params =
    [\<lparr>opts = [''-v'', ''--validate''], secondary_opts = [''-t'', ''--train''],
      dest = ''evaluate_only'', is_flag = True, ptype = BOOL, default_value = VBool True\<rparr>,
     \<lparr>opts = [''--dataset'', ''-d''], secondary_opts = [],
      dest = ''dataset'', is_flag = False, ptype = STRING, default_value = VStr ''MNIST''\<rparr>,
     \<lparr>opts = [''--model'', ''-m''], secondary_opts = [],
      dest = ''model'', is_flag = False, ptype = STRING, default_value = VStr ''small_cnn''\<rparr>,
     \<lparr>opts = [''-p'', ''--pretrained''], secondary_opts = [''-s'', ''--scratch''],
      dest = ''pretrained'', is_flag = True, ptype = BOOL, default_value = VBool False\<rparr>,
     \<lparr>opts = [''--learning-rate'', ''-lr''], secondary_opts = [],
      dest = ''learning_rate'', is_flag = False, ptype = FloatRange (Some 0),
      default_value = VNum (PyFloat (1/10))\<rparr>,
     \<lparr>opts = [''--momentum'', ''-mm''], secondary_opts = [],
      dest = ''momentum'', is_flag = False, ptype = FloatRange (Some 0),
      default_value = VNum (PyFloat (9/10))\<rparr>,
     \<lparr>opts = [''--weight-decay'', ''-w''], secondary_opts = [],
      dest = ''weight_decay'', is_flag = False, ptype = FloatRange (Some 0),
      default_value = VNum (PyFloat (1/10000))\<rparr>,
     \<lparr>opts = [''--number-of-epochs'', ''-n''], secondary_opts = [],
      dest = ''epochs'', is_flag = False, ptype = IntRange (Some 0),
      default_value = VNum (PyInt 90)\<rparr>,
     \<lparr>opts = [''--batch-size'', ''-b''], secondary_opts = [],
      dest = ''batch_size'', is_flag = False, ptype = IntRange (Some 0),
      default_value = VNum (PyInt 256)\<rparr>,
     \<lparr>opts = [''--jobs'', ''-j''], secondary_opts = [],
      dest = ''jobs'', is_flag = False, ptype = IntRange (Some 0),
      default_value = VNum (PyInt 4)\<rparr>,
     \<lparr>opts = [''--checkpoint'', ''-c''], secondary_opts = [],
      dest = ''checkpoint'', is_flag = False, ptype = Path,
      default_value = VStr ''checkpoint.pth''\<rparr>,
     \<lparr>opts = [''--resume'', ''-r''], secondary_opts = [],
      dest = ''resume'', is_flag = False, ptype = Path, default_value = VStr []\<rparr>,
     \<lparr>opts = [''--log-dir'', ''-l''], secondary_opts = [],
      dest = ''log_dir'', is_flag = False, ptype = Path, default_value = VStr ''logs''\<rparr>,
     \<lparr>opts = [''--seed'', ''-sd''], secondary_opts = [],
      dest = ''seed'', is_flag = False, ptype = IntRange None, default_value = VNone\<rparr>,
     \<lparr>opts = [''--epsilon'', ''-e''], secondary_opts = [],
      dest = ''epsilon'', is_flag = False, ptype = FloatRange None,
      default_value = VNum (PyFloat 0)\<rparr>]"

text \<open>The callback: \<^verbatim>\<open>train_classifier(*args, **kwargs)\<close>.\<close>

definition basic ::
  "'net collaborators \<Rightarrow> (string \<times> pyval) list \<Rightarrow> 'net world \<Rightarrow> 'net world \<times> error option" where
  "basic env kwargs w =
     (let w1 = log_call (TrainClassifier kwargs) w
      in case train_classifier env kwargs (files w1) of
           (fs, r) \<Rightarrow> (w1\<lparr>files := fs\<rparr>, r))"

text \<open>\<^verbatim>\<open>ibp basic ARGV\<close>: the callback runs only on a command line that click accepts.\<close>

definition basic_command ::
  "python \<Rightarrow> 'net collaborators \<Rightarrow> string list \<Rightarrow> 'net world \<Rightarrow> 'net world \<times> error option" where
  "basic_command py env argv w =
     (case parse_command py basic_params argv of
        Inl err \<Rightarrow> (w, Some err)
      | Inr kwargs \<Rightarrow> basic env kwargs w)"

subsection \<open>The experiment command\<close>

definition product4 ::
  "'a list \<Rightarrow> 'b list \<Rightarrow> 'c list \<Rightarrow> 'd list \<Rightarrow> ('a \<times> 'b \<times> 'c \<times> 'd) list" where
  "product4 as bs cs ds =
     concat (map (\<lambda>a. concat (map (\<lambda>b. concat (map (\<lambda>c.
       map (\<lambda>d. (a, b, c, d)) ds) cs)) bs)) as)"

definition experiment_datasets :: "string list" where
  "experiment_datasets = [''MNIST'', ''CIFAR10'', ''SVHN'', ''CIFAR100'']"

definition experiment_epsilons :: "pynum list" where
  "experiment_epsilons =
     [PyFloat (1/1000), PyFloat (1/100), PyFloat (3/100), PyFloat (1/10), PyFloat (2/10),
      PyFloat (3/10), PyFloat (4/10)]"

definition experiment_learning_rates :: "pynum list" where
  "experiment_learning_rates = [PyFloat (1/10), PyFloat (1/100), PyFloat (1/1000)]"

definition experiment_models :: "string list" where
  "experiment_models = [''small_cnn'', ''medium_cnn'', ''large_cnn'']"

type_synonym configuration = "string \<times> pynum \<times> pynum \<times> string"

definition configurations :: "configuration list" where
  "configurations =
     product4 experiment_datasets experiment_epsilons experiment_learning_rates experiment_models"

text \<open>One iteration of the loop of \<^verbatim>\<open>experiment\<close>, after the index test.\<close>

definition experiment_body ::
  "python \<Rightarrow> 'net collaborators \<Rightarrow> bool \<Rightarrow> nat \<Rightarrow> configuration
     \<Rightarrow> 'net world \<Rightarrow> 'net world \<times> error option" where
  "experiment_body py env run i c w =
     (case c of (dataset, epsilon, learning_rate, model) \<Rightarrow>
      let directory = dataset @ ''-'' @ model @ ''-'' @ str_of_num py epsilon
                      @ ''/'' @ str_of_num py learning_rate;
          command = ''ibp basic --train -d '' @ dataset @ '' -m '' @ model
                    @ '' -e '' @ str_of_num py epsilon
                    @ '' -lr '' @ str_of_num py learning_rate @ '' -l '' @ directory
                    @ '' -c '' @ directory @ ''/checkpoint.pth'';
          w1 = print [str_of_num py (PyInt (int i)), command] w
      in if run
         then basic env
                (fill_defaults basic_params
                   [(''evaluate_only'', VBool False),
                    (''dataset'', VStr dataset),
                    (''model'', VStr model),
                    (''epsilon'', VNum epsilon),
                    (''learning_rate'', VNum learning_rate),
                    (''log_dir'', VStr directory),
                    (''checkpoint'', VStr (directory @ ''/checkpoint.pth''))]) w1
         else (w1, None))"

fun experiment_loop ::
  "python \<Rightarrow> 'net collaborators \<Rightarrow> bool \<Rightarrow> nat option \<Rightarrow> (nat \<times> configuration) list
     \<Rightarrow> 'net world \<Rightarrow> 'net world \<times> error option" where
  "experiment_loop py env run index [] w = (w, None)"
| "experiment_loop py env run index ((i, c) # rest) w =
     (if index \<noteq> None \<and> Some i \<noteq> index
      then experiment_loop py env run index rest w
      else case experiment_body py env run i c w of
             (w', Some err) \<Rightarrow> (w', Some err)
           | (w', None) \<Rightarrow> experiment_loop py env run index rest w')"

text \<open>The function \<^verbatim>\<open>experiment(ctx, run, index)\<close>.\<close>

definition experiment_callback ::
  "python \<Rightarrow> 'net collaborators \<Rightarrow> bool \<Rightarrow> nat option
     \<Rightarrow> 'net world \<Rightarrow> 'net world \<times> error option" where
  "experiment_callback py env run index w =
     experiment_loop py env run index (enumerate 0 configurations) w"

subsection \<open>The command surfaces of experiment and pgd\<close>

text \<open>Both commands declare the same two options.\<close>

definition run_index_params :: "option_decl list" where
  "run_index_params =
    [\<lparr>opts = [''-r'', ''--run''], secondary_opts = [''-s'', ''--show''],
      dest = ''run'', is_flag = True, ptype = BOOL, default_value = VBool False\<rparr>,
     \<lparr>opts = [''--index'', ''-i''], secondary_opts = [],
      dest = ''index'', is_flag = False, ptype = IntRange (Some 0), default_value = VNone\<rparr>]"

definition experiment_command ::
  "python \<Rightarrow> 'net collaborators \<Rightarrow> string list \<Rightarrow> 'net world \<Rightarrow> 'net world \<times> error option" where
  "experiment_command py env argv w =
     (case parse_command py run_index_params argv of
        Inl err \<Rightarrow> (w, Some err)
      | Inr kwargs \<Rightarrow>
          experiment_callback py env (kwarg_flag kwargs ''run'') (kwarg_index kwargs ''index'') w)"

text \<open>
  click calls \<^verbatim>\<open>pgd(**kwargs)\<close> with the declared parameters; the signature
  \<^verbatim>\<open>pgd(run, index, subset=None, restarts=1, seed=None)\<close> supplies the rest.
\<close>

definition pgd_callback ::
  "python \<Rightarrow> 'net collaborators \<Rightarrow> (string \<times> pyval) list
     \<Rightarrow> 'net world \<Rightarrow> 'net world \<times> error option" where
  "pgd_callback py env kwargs w =
     pgd py env (kwarg_flag kwargs ''run'') (kwarg_index kwargs ''index'')
       (kwarg kwargs ''subset'' VNone) (kwarg kwargs ''restarts'' (VNum (PyInt 1)))
       (kwarg kwargs ''seed'' VNone) w"

definition pgd_command ::
  "python \<Rightarrow> 'net collaborators \<Rightarrow> string list \<Rightarrow> 'net world \<Rightarrow> 'net world \<times> error option" where
  "pgd_command py env argv w =
     (case parse_command py run_index_params argv of
        Inl err \<Rightarrow> (w, Some err)
      | Inr kwargs \<Rightarrow> pgd_callback py env kwargs w)"

subsection \<open>Observations on the disk\<close>

text \<open>
  The list stored under \<^verbatim>\<open>'PGD'\<close> in a checkpoint dictionary (empty when the key is
  absent), and the same read off the file at a path.
\<close>

definition pgd_entries :: "(string \<times> pyval) list \<Rightarrow> pyval list" where
  "pgd_entries ckpt = (case map_of ckpt ''PGD'' of Some (VList xs) \<Rightarrow> xs | _ \<Rightarrow> [])"

definition stored_pgd :: "(string \<rightharpoonup> stored) \<Rightarrow> string \<Rightarrow> pyval list" where
  "stored_pgd fs path = (case fs path of Some (Pickled (VDict ckpt)) \<Rightarrow> pgd_entries ckpt | _ \<Rightarrow> [])"

definition stored_key :: "(string \<rightharpoonup> stored) \<Rightarrow> string \<Rightarrow> string \<Rightarrow> pyval option" where
  "stored_key fs path k = (case fs path of Some (Pickled (VDict ckpt)) \<Rightarrow> map_of ckpt k | _ \<Rightarrow> None)"

text \<open>The calls a command added to the trace of the world it started from.\<close>

definition new_calls :: "'net world \<Rightarrow> 'net world \<Rightarrow> 'net call list" where
  "new_calls w w' = drop (length (trace w)) (trace w')"

definition new_lines :: "'net world \<Rightarrow> 'net world \<Rightarrow> string list" where
  "new_lines w w' = drop (length (stdout w)) (stdout w')"

fun is_TorchSave :: "'net call \<Rightarrow> bool" where
  "is_TorchSave (TorchSave obj path) = True"
| "is_TorchSave _ = False"

subsection \<open>The paths as the specification words them\<close>

text \<open>
  The log directory \<^verbatim>\<open>dataset-model-epsilon/learning_rate\<close> and the checkpoint path
  below it, written from the specification's description, to be compared with what
  \<^verbatim>\<open>experiment\<close> prints and passes on.
\<close>

definition spec_directory :: "python \<Rightarrow> configuration \<Rightarrow> string" where
  "spec_directory py c =
     (case c of (dataset, epsilon, learning_rate, model) \<Rightarrow>
        dataset @ ''-'' @ model @ ''-'' @ str_of_num py epsilon @ ''/'' @ str_of_num py learning_rate)"

definition spec_checkpoint :: "python \<Rightarrow> configuration \<Rightarrow> string" where
  "spec_checkpoint py c = spec_directory py c @ ''/checkpoint.pth''"

definition spec_command :: "python \<Rightarrow> configuration \<Rightarrow> string" where
  "spec_command py c =
     (case c of (dataset, epsilon, learning_rate, model) \<Rightarrow>
        ''ibp basic --train -d '' @ dataset @ '' -m '' @ model @ '' -e '' @ str_of_num py epsilon
        @ '' -lr '' @ str_of_num py learning_rate @ '' -l '' @ spec_directory py c
        @ '' -c '' @ spec_checkpoint py c)"

text \<open>A call of \<^verbatim>\<open>train_classifier\<close> made for a configuration, with these paths.\<close>

definition trains_configuration :: "python \<Rightarrow> configuration \<Rightarrow> 'net call \<Rightarrow> bool" where
  "trains_configuration py c call =
     (case c of (dataset, epsilon, learning_rate, model) \<Rightarrow>
        (case call of
           TrainClassifier kwargs \<Rightarrow>
               map_of kwargs ''dataset'' = Some (VStr dataset)
             \<and> map_of kwargs ''model'' = Some (VStr model)
             \<and> map_of kwargs ''epsilon'' = Some (VNum epsilon)
             \<and> map_of kwargs ''learning_rate'' = Some (VNum learning_rate)
             \<and> map_of kwargs ''log_dir'' = Some (VStr (spec_directory py c))
             \<and> map_of kwargs ''checkpoint'' = Some (VStr (spec_checkpoint py c))
         | _ \<Rightarrow> False))"

subsection \<open>Invariants and predicates used in the statements\<close>

text \<open>
  The table built by the scan holds a flag for a flag option and a raw string for any
  other option.
\<close>

definition well_formed :: "option_decl list \<Rightarrow> (string \<times> raw) list \<Rightarrow> bool" where
  "well_formed ds acc =
     (\<forall>d \<in> set ds. \<forall>x. map_of acc (dest d) = Some x \<longrightarrow> (is_flag d \<longleftrightarrow> (\<exists>b. x = RawFlag b)))"

text \<open>A keyword argument that holds a float not below zero.\<close>

definition nonneg_float :: "(string \<times> pyval) list \<Rightarrow> string \<Rightarrow> bool" where
  "nonneg_float kwargs name = (\<exists>x. map_of kwargs name = Some (VNum (PyFloat x)) \<and> 0 \<le> x)"

text \<open>The names of the mode flag of \<^verbatim>\<open>basic\<close>.\<close>

definition mode_flags :: "string set" where
  "mode_flags = {''-v'', ''--validate'', ''-t'', ''--train''}"

subsection \<open>A concrete instance for the examples\<close>

text \<open>
  An instance of the parameters, used to run the commands on concrete inputs. The
  Python built-ins are given on the few literals the examples use, with the results
  Python gives there; the collaborators always succeed; the network is a counter of the
  in-place updates made to it.
\<close>

definition example_python :: python where
  "example_python =
     \<lparr>float_of_str = (\<lambda>s. if s = ''-1'' then Some (- 1) else if s = ''0.5'' then Some (1/2)
                            else None),
      int_of_str = (\<lambda>s. if s = ''0'' then Some 0 else if s = ''5'' then Some 5 else None),
      str_of_num = (\<lambda>x. if x = PyInt 0 then ''0''
                         else if x = PyInt 1 then ''1''
                         else if x = PyFloat (1/1000) then ''0.001''
                         else if x = PyFloat (3/100) then ''0.03''
                         else if x = PyFloat (1/10) then ''0.1''
                         else if x = PyFloat (2/10) then ''0.2''
                         else ''?'')\<rparr>"

definition example_results :: results where
  "example_results =
     \<lparr>robustness = VNum (PyFloat (1/2)), fooling_rate = VNum (PyFloat (1/4)),
      sorted_errors = VList [VNum (PyFloat (- 1)), VNum (PyFloat 2)]\<rparr>"

definition example_env :: "nat collaborators" where
  "example_env =
     \<lparr>models_dict = (\<lambda>name. if name = ''small_cnn'' \<or> name = ''medium_cnn''
                             then Some (Inr 0) else None),
      fit_to_dataset = (\<lambda>n d. Inr (Suc n)),
      load_state_dict = (\<lambda>n sd. Inr (Suc n)),
      cuda_is_available = False,
      compute_robustness = (\<lambda>kw. Inr example_results),
      train_classifier = (\<lambda>kw fs. (fs, None))\<rparr>"

text \<open>A disk with one trained checkpoint, and an empty disk.\<close>

definition example_world :: "nat world" where
  "example_world =
     \<lparr>stdout = [],
      files = [''dm_torch/mnist-small-0.03.pth'' \<mapsto> Pickled (VDict [(''state_dict'', VDict [])])],
      trace = []\<rparr>"

definition empty_world :: "nat world" where
  "empty_world = \<lparr>stdout = [], files = Map.empty, trace = []\<rparr>"

text \<open>The first two experiments of \<^verbatim>\<open>pgd\<close>: same checkpoint, two test epsilons.\<close>

definition experiment0 :: pgd_experiment where
  "experiment0 = (''MNIST'', PyFloat (3/100), ''small'', PyInt 0, PyFloat (1/10))"

definition experiment1 :: pgd_experiment where
  "experiment1 = (''MNIST'', PyFloat (3/100), ''small'', PyInt 0, PyFloat (2/10))"


text \<open>The worlds after running the first, then the second experiment on the example disk.\<close>

definition example_world1 :: "nat world" where
  "example_world1 =
     fst (pgd_body example_python example_env True VNone (VNum (PyInt 1)) VNone 0
            experiment0 example_world)"

definition example_world2 :: "nat world" where
  "example_world2 =
     fst (pgd_body example_python example_env True VNone (VNum (PyInt 1)) VNone 1
            experiment1 example_world1)"

text \<open>
  A disk whose checkpoint lacks \<^verbatim>\<open>'state_dict'\<close>, a disk whose checkpoint does not
  unpickle, and collaborators whose attack raises.
\<close>

definition headless_world :: "nat world" where
  "headless_world =
     \<lparr>stdout = [],
      files = [''dm_torch/mnist-small-0.03.pth'' \<mapsto> Pickled (VDict [(''best_acc1'', VNum (PyFloat (9/10)))])],
      trace = []\<rparr>"

definition corrupt_world :: "nat world" where
  "corrupt_world =
     \<lparr>stdout = [], files = [''dm_torch/mnist-small-0.03.pth'' \<mapsto> Corrupt], trace = []\<rparr>"

definition failing_env :: "nat collaborators" where
  "failing_env = example_env\<lparr>compute_robustness := (\<lambda>kw. Inl (Raised ''out of memory''))\<rparr>"

text \<open>Collaborators whose attack succeeds for test epsilon 0.1 and raises otherwise.\<close>

definition flaky_env :: "nat collaborators" where
  "flaky_env =
     example_env\<lparr>compute_robustness :=
       (\<lambda>kw. if kw_attack_kwargs kw = [(''epsilon'', VNum (PyFloat (1/10)))]
             then Inr example_results else Inl (Raised ''out of memory''))\<rparr>"

section \<open>Properties\<close>

subsection \<open>Basic facts about the world and the checkpoint operations\<close>

lemma log_call_simps [simp]:
  "files (log_call c w) = files w"
  "stdout (log_call c w) = stdout w"
  "trace (log_call c w) = trace w @ [c]"
  by (simp_all add: log_call_def)

lemma print_simps [simp]:
  "files (print args w) = files w"
  "stdout (print args w) = stdout w @ [join_sp args]"
  "trace (print args w) = trace w"
  by (simp_all add: print_def)

lemma torch_load_log_call [simp]: "torch_load path (log_call c w) = torch_load path w"
  by (simp add: torch_load_def)

lemma torch_load_print [simp]: "torch_load path (print args w) = torch_load path w"
  by (simp add: torch_load_def)

lemma torch_save_simps [simp]:
  "files (torch_save obj path w) = (files w)(path \<mapsto> Pickled obj)"
  "stdout (torch_save obj path w) = stdout w"
  "trace (torch_save obj path w) = trace w"
  by (simp_all add: torch_save_def)

lemma torch_load_Inr: "torch_load path w = Inr v \<longleftrightarrow> files w path = Some (Pickled v)"
  by (simp add: torch_load_def split: option.splits stored.splits)

lemma getitem_Inr: "getitem c k = Inr v \<longleftrightarrow> (\<exists>d. c = VDict d \<and> map_of d k = Some v)"
  by (cases c) (auto split: option.splits)

lemma list_append_Inr:
  "list_append l x = Inr l' \<longleftrightarrow> (\<exists>xs. l = VList xs \<and> l' = VList (xs @ [x]))"
  by (cases l) auto

lemma new_calls_append [simp]: "trace w' = trace w @ cs \<Longrightarrow> new_calls w w' = cs"
  by (simp add: new_calls_def)

lemma new_lines_append [simp]: "stdout w' = stdout w @ ls \<Longrightarrow> new_lines w w' = ls"
  by (simp add: new_lines_def)

text \<open>
  Lines 225 to 235 of the source on a dictionary: the key \<^verbatim>\<open>'PGD'\<close> ends up holding the
  old list, or the empty one, extended by the new record.
\<close>

lemma append_under_PGD:
  assumes "getitem (if \<not> contains (VDict d) ''PGD''
                    then setitem (VDict d) ''PGD'' (VList []) else VDict d) ''PGD'' = Inr l"
    and "list_append l x = Inr l'"
  shows "(map_of d ''PGD'' = None \<or> (\<exists>xs. map_of d ''PGD'' = Some (VList xs)))
       \<and> setitem (if \<not> contains (VDict d) ''PGD''
                   then setitem (VDict d) ''PGD'' (VList []) else VDict d) ''PGD'' l'
           = VDict (AList.update ''PGD'' (VList (pgd_entries d @ [x])) d)"
proof (cases "map_of d ''PGD''")
  case None
  with assms show ?thesis
    by (auto simp: pgd_entries_def update_conv' list_append_Inr)
next
  case (Some v)
  with assms show ?thesis
    by (auto simp: pgd_entries_def list_append_Inr)
qed

lemma pgd_entries_update [simp]:
  "pgd_entries (AList.update ''PGD'' (VList xs) d) = xs"
  by (simp add: pgd_entries_def update_conv')

subsection \<open>One run of the attack block\<close>

text \<open>A run that raises has not written: the disk is as before, and no save was made.\<close>

lemma pgd_run_error:
  assumes "pgd_run env s r sd path e w = (w', Some err)"
  shows "files w' = files w" and "stdout w' = stdout w"
    and "\<exists>cs. trace w' = trace w @ cs \<and> (\<forall>c \<in> set cs. \<not> is_TorchSave c)"
  using assms
  by (cases e; auto simp: pgd_run_def Let_def split: option.splits sum.splits)+

text \<open>A run that returns went through every statement of the block.\<close>

lemma pgd_run_success:
  fixes env :: "'net collaborators"
  assumes "pgd_run env s r sd path (d, eps, m, lr, te) w = (w', None)"
  shows "\<exists>ckpt state net0 net1 net2 res kw.
      files w path = Some (Pickled (VDict ckpt))
    \<and> map_of ckpt ''state_dict'' = Some state
    \<and> (map_of ckpt ''PGD'' = None \<or> (\<exists>xs. map_of ckpt ''PGD'' = Some (VList xs)))
    \<and> models_dict env (m @ ''_cnn'') = Some (Inr net0)
    \<and> fit_to_dataset env net0 d = Inr net1
    \<and> load_state_dict env net1 state = Inr net2
    \<and> kw = \<lparr>kw_net = net2, kw_dataset = d,
              kw_device = (if cuda_is_available env then ''cuda'' else ''cpu''),
              kw_attack_name = ''PGD'', kw_restarts = r, kw_subset = s,
              kw_subset_seed = sd, kw_attack_kwargs = [(''epsilon'', VNum te)]\<rparr>
    \<and> compute_robustness env kw = Inr res
    \<and> files w' = (files w)(path \<mapsto> Pickled (VDict (AList.update ''PGD''
                      (VList (pgd_entries ckpt @ [attack_record sd s r te res])) ckpt)))
    \<and> stdout w' = stdout w
    \<and> trace w' = trace w @ [ModelCtor (m @ ''_cnn''), FitToDataset net0 d, TorchLoad path,
         LoadStateDict net1 state, ComputeRobustness kw,
         TorchSave (VDict (AList.update ''PGD''
                      (VList (pgd_entries ckpt @ [attack_record sd s r te res])) ckpt)) path]"
proof -
  define kwf where "kwf = (\<lambda>net2::'net. \<lparr>kw_net = net2, kw_dataset = d,
              kw_device = (if cuda_is_available env then ''cuda'' else ''cpu''),
              kw_attack_name = ''PGD'', kw_restarts = r, kw_subset = s,
              kw_subset_seed = sd, kw_attack_kwargs = [(''epsilon'', VNum te)]\<rparr>)"
  define pre where "pre = (\<lambda>c. if \<not> contains c ''PGD'' then setitem c ''PGD'' (VList []) else c)"
  from assms obtain net0 net1 c state net2 res l l' where
    m: "models_dict env (m @ ''_cnn'') = Some (Inr net0)"
    and f: "fit_to_dataset env net0 d = Inr net1"
    and t: "torch_load path w = Inr c"
    and g: "getitem c ''state_dict'' = Inr state"
    and ls: "load_state_dict env net1 state = Inr net2"
    and cr: "compute_robustness env (kwf net2) = Inr res"
    and g2: "getitem (pre c) ''PGD'' = Inr l"
    and ap: "list_append l (attack_record sd s r te res) = Inr l'"
    and w': "w' = torch_save (setitem (pre c) ''PGD'' l') path
        (log_call (TorchSave (setitem (pre c) ''PGD'' l') path)
          (log_call (ComputeRobustness (kwf net2)) (log_call (LoadStateDict net1 state)
            (log_call (TorchLoad path) (log_call (FitToDataset net0 d)
              (log_call (ModelCtor (m @ ''_cnn'')) w))))))"
    unfolding pgd_run_def Let_def kwf_def pre_def
    by (simp split: option.splits sum.splits)
  from g obtain ckpt where c: "c = VDict ckpt" and sd: "map_of ckpt ''state_dict'' = Some state"
    by (auto simp: getitem_Inr)
  from append_under_PGD[OF g2[unfolded c pre_def] ap]
  have p: "map_of ckpt ''PGD'' = None \<or> (\<exists>xs. map_of ckpt ''PGD'' = Some (VList xs))"
    and u: "setitem (pre c) ''PGD'' l'
           = VDict (AList.update ''PGD''
                     (VList (pgd_entries ckpt @ [attack_record sd s r te res])) ckpt)"
    unfolding c pre_def by blast+
  from t c have fl: "files w path = Some (Pickled (VDict ckpt))"
    by (simp add: torch_load_Inr)
  show ?thesis
    apply (rule exI[of _ ckpt], rule exI[of _ state], rule exI[of _ net0], rule exI[of _ net1],
           rule exI[of _ net2], rule exI[of _ res], rule exI[of _ "kwf net2"])
    using m f ls cr p sd fl unfolding w' u
    by (simp add: kwf_def)
qed

text \<open>The loop body prints one line and, when \<open>run\<close> is set, runs the block.\<close>

lemma pgd_body_run:
  "pgd_body py env True s r sd i (d, eps, m, lr, te) w =
     pgd_run env s r sd (checkpoint_file py (d, eps, m, lr, te)) (d, eps, m, lr, te)
       (print [str_of_num py (PyInt (int i)), d @ ''-'' @ m @ ''-'' @ str_of_num py eps,
               str_of_num py lr, str_of_num py te] w)"
  by (simp add: pgd_body_def Let_def)

lemma pgd_body_show:
  "pgd_body py env False s r sd i (d, eps, m, lr, te) w =
     (print [str_of_num py (PyInt (int i)), d @ ''-'' @ m @ ''-'' @ str_of_num py eps,
             str_of_num py lr, str_of_num py te] w, None)"
  by (simp add: pgd_body_def Let_def)

text \<open>The disk after a successful iteration, in terms of the disk before.\<close>

lemma pgd_body_success_files:
  fixes env :: "'net collaborators"
  assumes "pgd_body py env True s r sd i (d, eps, m, lr, te) w = (w', None)"
  shows "\<exists>ckpt res kw.
      files w (checkpoint_file py (d, eps, m, lr, te)) = Some (Pickled (VDict ckpt))
    \<and> compute_robustness env kw = Inr res
    \<and> kw_attack_kwargs kw = [(''epsilon'', VNum te)]
    \<and> kw_restarts kw = r \<and> kw_subset kw = s \<and> kw_subset_seed kw = sd
    \<and> ComputeRobustness kw \<in> set (new_calls w w')
    \<and> files w' = (files w)(checkpoint_file py (d, eps, m, lr, te) \<mapsto>
         Pickled (VDict (AList.update ''PGD''
           (VList (pgd_entries ckpt @ [attack_record sd s r te res])) ckpt)))"
  using pgd_run_success[OF assms[unfolded pgd_body_run]]
  apply (elim exE conjE)
  subgoal for ckpt state net0 net1 net2 res kw
    apply (rule exI[of _ ckpt], rule exI[of _ res], rule exI[of _ kw])
    apply (simp add: new_calls_def)
    done
  done

lemma pgd_body_error:
  assumes "pgd_body py env run s r sd i e w = (w', Some err)"
  shows "files w' = files w"
    and "\<forall>c \<in> set (new_calls w w'). \<not> is_TorchSave c"
proof -
  obtain d eps m lr te where e: "e = (d, eps, m, lr, te)"
    by (cases e)
  from assms have run: run
    by (cases run) (simp_all add: e pgd_body_show)
  from assms have *: "pgd_run env s r sd (checkpoint_file py e) e
       (print [str_of_num py (PyInt (int i)), d @ ''-'' @ m @ ''-'' @ str_of_num py eps,
               str_of_num py lr, str_of_num py te] w) = (w', Some err)"
    using run by (simp add: e pgd_body_run)
  from pgd_run_error(1)[OF *] show "files w' = files w" by simp
  from pgd_run_error(3)[OF *] show "\<forall>c \<in> set (new_calls w w'). \<not> is_TorchSave c"
    by auto
qed

subsection \<open>The loop with a selected index\<close>

lemma pgd_loop_skip:
  "\<forall>p \<in> set xs. fst p \<noteq> i \<Longrightarrow> pgd_loop py env run (Some i) s r sd xs w = (w, None)"
  by (induction xs) auto

lemma pgd_loop_select:
  "k < length xs \<Longrightarrow>
   pgd_loop py env run (Some (n + k)) s r sd (enumerate n xs) w =
     pgd_body py env run s r sd (n + k) (xs ! k) w"
proof (induction xs arbitrary: n k)
  case Nil
  then show ?case by simp
next
  case (Cons x xs)
  show ?case
  proof (cases k)
    case 0
    have "\<forall>p \<in> set (enumerate (Suc n) xs). fst p \<noteq> n"
      by (auto simp: in_set_enumerate_eq)
    then have "pgd_loop py env run (Some n) s r sd (enumerate (Suc n) xs) w' = (w', None)" for w'
      by (rule pgd_loop_skip)
    with 0 show ?thesis
      by (auto split: prod.splits option.splits)
  next
    case (Suc k')
    with Cons.prems have "k' < length xs" by simp
    from Cons.IH[OF this, of "Suc n"] Suc show ?thesis by simp
  qed
qed

lemma pgd_loop_out_of_range:
  "length xs \<le> k \<Longrightarrow> pgd_loop py env run (Some (n + k)) s r sd (enumerate n xs) w = (w, None)"
  by (rule pgd_loop_skip) (auto simp: in_set_enumerate_eq)

lemma pgd_select:
  "i < length experiments \<Longrightarrow>
   pgd py env run (Some i) s r sd w = pgd_body py env run s r sd i (experiments ! i) w"
  using pgd_loop_select[of i experiments py env run 0 s r sd w] by (simp add: pgd_def)

lemma pgd_out_of_range:
  "length experiments \<le> i \<Longrightarrow> pgd py env run (Some i) s r sd w = (w, None)"
  using pgd_loop_out_of_range[of experiments i py env run 0 s r sd w] by (simp add: pgd_def)


subsection \<open>Appending results to the checkpoint\<close>

lemma stored_pgd_after_append:
  assumes "fs path = Some (Pickled (VDict ckpt))"
  shows "stored_pgd (fs(path \<mapsto> Pickled (VDict (AList.update ''PGD'' (VList (pgd_entries ckpt @ [x])) ckpt)))) path
           = stored_pgd fs path @ [x]"
  using assms by (simp add: stored_pgd_def)

lemma stored_key_after_append:
  assumes "fs path = Some (Pickled (VDict ckpt))" and "k \<noteq> ''PGD''"
  shows "stored_key (fs(path \<mapsto> Pickled (VDict (AList.update ''PGD'' v ckpt)))) path k
           = stored_key fs path k"
  using assms by (simp add: stored_key_def update_conv')

lemma getitem_attack_record_epsilon:
  "getitem (attack_record sd s r te res) ''epsilon'' = Inr (VNum te)"
  by (simp add: attack_record_def)

text \<open>
  C1. Running \<^verbatim>\<open>pgd\<close> on an experiment (an iteration with \<open>run\<close> set that returns) leaves
  the checkpoint file holding, under \<^verbatim>\<open>'PGD'\<close>, the list it held before (the empty list
  when the key was absent) followed by exactly one new record; every other key of the
  checkpoint and every other file is as before. Two such runs on the same checkpoint
  file leave both records, in the order of the runs, each with its own test epsilon.
\<close>

theorem pgd_appends_one_record:
  fixes env :: "'net collaborators"
  shows
   "(pgd_body py env True subset' restarts seed i (d, eps, m, lr, te) w = (w1, None) \<longrightarrow>
       (\<exists>rec. stored_pgd (files w1) (checkpoint_file py (d, eps, m, lr, te))
                = stored_pgd (files w) (checkpoint_file py (d, eps, m, lr, te)) @ [rec])
     \<and> (\<forall>k. k \<noteq> ''PGD'' \<longrightarrow>
            stored_key (files w1) (checkpoint_file py (d, eps, m, lr, te)) k
              = stored_key (files w) (checkpoint_file py (d, eps, m, lr, te)) k)
     \<and> (\<forall>p. p \<noteq> checkpoint_file py (d, eps, m, lr, te) \<longrightarrow> files w1 p = files w p))
  \<and> (pgd_body py env True subset' restarts seed i (d, eps, m, lr, te) w = (w1, None)
     \<and> pgd_body py env True subset' restarts seed j (d', eps', m', lr', te') w1 = (w2, None)
     \<and> checkpoint_file py (d', eps', m', lr', te') = checkpoint_file py (d, eps, m, lr, te) \<longrightarrow>
       (\<exists>rec rec'. stored_pgd (files w2) (checkpoint_file py (d, eps, m, lr, te))
                = stored_pgd (files w) (checkpoint_file py (d, eps, m, lr, te)) @ [rec, rec']
          \<and> getitem rec ''epsilon'' = Inr (VNum te)
          \<and> getitem rec' ''epsilon'' = Inr (VNum te')))"
proof -
  let ?p = "checkpoint_file py (d, eps, m, lr, te)"
  have one: "\<exists>ckpt res. files w ?p = Some (Pickled (VDict ckpt))
      \<and> files w1 = (files w)(?p \<mapsto> Pickled (VDict (AList.update ''PGD''
           (VList (pgd_entries ckpt @ [attack_record seed subset' restarts te res])) ckpt)))"
    if "pgd_body py env True subset' restarts seed i (d, eps, m, lr, te) w = (w1, None)"
    using pgd_body_success_files[OF that] by blast
  have first: "(\<exists>rec. stored_pgd (files w1) ?p = stored_pgd (files w) ?p @ [rec])
     \<and> (\<forall>k. k \<noteq> ''PGD'' \<longrightarrow> stored_key (files w1) ?p k = stored_key (files w) ?p k)
     \<and> (\<forall>p. p \<noteq> ?p \<longrightarrow> files w1 p = files w p)"
    if run: "pgd_body py env True subset' restarts seed i (d, eps, m, lr, te) w = (w1, None)"
  proof -
    from one[OF run] obtain ckpt res where
      f: "files w ?p = Some (Pickled (VDict ckpt))"
      and f1: "files w1 = (files w)(?p \<mapsto> Pickled (VDict (AList.update ''PGD''
           (VList (pgd_entries ckpt @ [attack_record seed subset' restarts te res])) ckpt)))"
      by blast
    show ?thesis
      unfolding f1 using f
      by (simp add: stored_pgd_after_append stored_key_after_append)
  qed
  have second: "\<exists>rec rec'. stored_pgd (files w2) ?p = stored_pgd (files w) ?p @ [rec, rec']
          \<and> getitem rec ''epsilon'' = Inr (VNum te)
          \<and> getitem rec' ''epsilon'' = Inr (VNum te')"
    if run1: "pgd_body py env True subset' restarts seed i (d, eps, m, lr, te) w = (w1, None)"
      and run2: "pgd_body py env True subset' restarts seed j (d', eps', m', lr', te') w1 = (w2, None)"
      and same: "checkpoint_file py (d', eps', m', lr', te') = ?p"
  proof -
    from one[OF run1] obtain ckpt res where
      f: "files w ?p = Some (Pickled (VDict ckpt))"
      and f1: "files w1 = (files w)(?p \<mapsto> Pickled (VDict (AList.update ''PGD''
           (VList (pgd_entries ckpt @ [attack_record seed subset' restarts te res])) ckpt)))"
      by blast
    from pgd_body_success_files[OF run2] obtain ckpt' res' where
      g: "files w1 ?p = Some (Pickled (VDict ckpt'))"
      and g1: "files w2 = (files w1)(?p \<mapsto> Pickled (VDict (AList.update ''PGD''
           (VList (pgd_entries ckpt' @ [attack_record seed subset' restarts te' res'])) ckpt')))"
      unfolding same by blast
    have "stored_pgd (files w1) ?p
            = stored_pgd (files w) ?p @ [attack_record seed subset' restarts te res]"
      unfolding f1 using f by (simp add: stored_pgd_after_append)
    moreover have "stored_pgd (files w2) ?p
            = stored_pgd (files w1) ?p @ [attack_record seed subset' restarts te' res']"
      unfolding g1 using g by (simp only: stored_pgd_after_append)
    ultimately have "stored_pgd (files w2) ?p = stored_pgd (files w) ?p
        @ [attack_record seed subset' restarts te res, attack_record seed subset' restarts te' res']"
      by simp
    then show ?thesis
      using getitem_attack_record_epsilon by blast
  qed
  from first second show ?thesis by blast
qed

lemma example_checkpoint_file:
  "checkpoint_file example_python (''MNIST'', PyFloat (3 / 100), ''small'', PyInt 0, t)
     = ''dm_torch/mnist-small-0.03.pth''"
  by (simp add: checkpoint_file_def example_python_def py_eq_def lower_def lower_char_def)

lemma example_str_of_num:
  "str_of_num example_python (PyInt 0) = ''0''"
  "str_of_num example_python (PyInt 1) = ''1''"
  "str_of_num example_python (PyFloat (3/100)) = ''0.03''"
  "str_of_num example_python (PyFloat (1/10)) = ''0.1''"
  "str_of_num example_python (PyFloat (2/10)) = ''0.2''"
  "str_of_num example_python (PyFloat (1/5)) = ''0.2''"
  "str_of_num example_python (PyFloat (1/1000)) = ''0.001''"
  by (simp_all add: example_python_def)

lemmas example_run_simps =
  pgd_body_def pgd_run_def example_checkpoint_file example_str_of_num example_env_def
  example_world_def Let_def torch_load_def log_call_def print_def torch_save_def

lemma example_run0:
  "pgd_body example_python example_env True VNone (VNum (PyInt 1)) VNone 0
     (''MNIST'', PyFloat (3/100), ''small'', PyInt 0, PyFloat (1/10)) example_world
   = (\<lparr>stdout = [''0 MNIST-small-0.03 0 0.1''],
       files = [''dm_torch/mnist-small-0.03.pth'' \<mapsto> Pickled (VDict
          [(''state_dict'', VDict []),
           (''PGD'', VList [attack_record VNone VNone (VNum (PyInt 1)) (PyFloat (1/10)) example_results])])],
       trace = [ModelCtor ''small_cnn'', FitToDataset 0 ''MNIST'',
                TorchLoad ''dm_torch/mnist-small-0.03.pth'', LoadStateDict 1 (VDict []),
                ComputeRobustness \<lparr>kw_net = 2, kw_dataset = ''MNIST'', kw_device = ''cpu'',
                    kw_attack_name = ''PGD'', kw_restarts = VNum (PyInt 1), kw_subset = VNone,
                    kw_subset_seed = VNone,
                    kw_attack_kwargs = [(''epsilon'', VNum (PyFloat (1/10)))]\<rparr>,
                TorchSave (VDict
          [(''state_dict'', VDict []),
           (''PGD'', VList [attack_record VNone VNone (VNum (PyInt 1)) (PyFloat (1/10)) example_results])])
                  ''dm_torch/mnist-small-0.03.pth'']\<rparr>, None)"
  by (simp add: example_run_simps)


lemma example_run1:
  "pgd_body example_python example_env True VNone (VNum (PyInt 1)) VNone 1
     (''MNIST'', PyFloat (3/100), ''small'', PyInt 0, PyFloat (2/10))
     \<lparr>stdout = [''0 MNIST-small-0.03 0 0.1''],
       files = [''dm_torch/mnist-small-0.03.pth'' \<mapsto> Pickled (VDict
          [(''state_dict'', VDict []), (''PGD'', VList [r0])])],
       trace = cs\<rparr>
   = (\<lparr>stdout = [''0 MNIST-small-0.03 0 0.1'', ''1 MNIST-small-0.03 0 0.2''],
       files = [''dm_torch/mnist-small-0.03.pth'' \<mapsto> Pickled (VDict
          [(''state_dict'', VDict []),
           (''PGD'', VList [r0,
              attack_record VNone VNone (VNum (PyInt 1)) (PyFloat (2/10)) example_results])])],
       trace = cs @ [ModelCtor ''small_cnn'', FitToDataset 0 ''MNIST'',
                TorchLoad ''dm_torch/mnist-small-0.03.pth'', LoadStateDict 1 (VDict []),
                ComputeRobustness \<lparr>kw_net = 2, kw_dataset = ''MNIST'', kw_device = ''cpu'',
                    kw_attack_name = ''PGD'', kw_restarts = VNum (PyInt 1), kw_subset = VNone,
                    kw_subset_seed = VNone,
                    kw_attack_kwargs = [(''epsilon'', VNum (PyFloat (2/10)))]\<rparr>,
                TorchSave (VDict
          [(''state_dict'', VDict []),
           (''PGD'', VList [r0,
              attack_record VNone VNone (VNum (PyInt 1)) (PyFloat (2/10)) example_results])])
                  ''dm_torch/mnist-small-0.03.pth'']\<rparr>, None)"
  by (simp add: example_run_simps)

lemma example_world1_run:
  "pgd_body example_python example_env True VNone (VNum (PyInt 1)) VNone 0
     (''MNIST'', PyFloat (3/100), ''small'', PyInt 0, PyFloat (1/10)) example_world
   = (example_world1, None)"
  unfolding example_world1_def experiment0_def
  by (simp only: example_run0 fst_conv)

lemma example_world2_run:
  "pgd_body example_python example_env True VNone (VNum (PyInt 1)) VNone 1
     (''MNIST'', PyFloat (3/100), ''small'', PyInt 0, PyFloat (2/10)) example_world1
   = (example_world2, None)"
  unfolding example_world2_def experiment1_def
  unfolding example_world1_def experiment0_def
  by (simp only: example_run0 example_run1 fst_conv)

theorem pgd_appends_one_record_witness:
  "pgd_body example_python example_env True VNone (VNum (PyInt 1)) VNone 0
     (''MNIST'', PyFloat (3/100), ''small'', PyInt 0, PyFloat (1/10)) example_world
     = (example_world1, None)
   \<and> pgd_body example_python example_env True VNone (VNum (PyInt 1)) VNone 1
     (''MNIST'', PyFloat (3/100), ''small'', PyInt 0, PyFloat (2/10)) example_world1
     = (example_world2, None)
   \<and> stored_pgd (files example_world) ''dm_torch/mnist-small-0.03.pth'' = []
   \<and> (\<exists>rec. stored_pgd (files example_world1) ''dm_torch/mnist-small-0.03.pth'' = [rec])
   \<and> stored_key (files example_world1) ''dm_torch/mnist-small-0.03.pth'' ''state_dict''
        = Some (VDict [])
   \<and> (\<exists>rec rec'. stored_pgd (files example_world2) ''dm_torch/mnist-small-0.03.pth'' = [rec, rec']
        \<and> getitem rec ''epsilon'' = Inr (VNum (PyFloat (1/10)))
        \<and> getitem rec' ''epsilon'' = Inr (VNum (PyFloat (2/10))))"
proof -
  have e: "stored_pgd (files example_world) ''dm_torch/mnist-small-0.03.pth'' = []"
    and k: "stored_key (files example_world) ''dm_torch/mnist-small-0.03.pth'' ''state_dict''
              = Some (VDict [])"
    by (simp_all add: stored_pgd_def stored_key_def pgd_entries_def example_world_def)
  have ne: "''state_dict'' \<noteq> ''PGD''"
    by simp
  from pgd_appends_one_record[where py = example_python and env = example_env
      and subset' = VNone and restarts = "VNum (PyInt 1)" and seed = VNone and i = 0 and j = 1
      and d = "''MNIST''" and eps = "PyFloat (3/100)" and m = "''small''" and lr = "PyInt 0"
      and te = "PyFloat (1/10)" and d' = "''MNIST''" and eps' = "PyFloat (3/100)"
      and m' = "''small''" and lr' = "PyInt 0" and te' = "PyFloat (2/10)"
      and w = example_world and ?w1.0 = example_world1 and ?w2.0 = example_world2]
    example_world1_run example_world2_run e k ne
  show ?thesis
    by (simp add: example_checkpoint_file)
qed

text \<open>
  C5. The record appended by a run of \<^verbatim>\<open>pgd\<close> is a dictionary with exactly the keys
  seed, subset, restarts, epsilon, robustness, fooling\_rate and sorted\_errors. The last
  three are the attributes of what \<^verbatim>\<open>compute_robustness\<close> returned in that run, and
  epsilon is the test epsilon that call was given as its attack argument.
\<close>

theorem attack_record_shape:
  fixes env :: "'net collaborators"
  assumes "pgd_body py env True subset' restarts seed i (d, eps, m, lr, te) w = (w', None)"
  shows "\<exists>kvs kw res.
      stored_pgd (files w') (checkpoint_file py (d, eps, m, lr, te))
        = stored_pgd (files w) (checkpoint_file py (d, eps, m, lr, te)) @ [VDict kvs]
    \<and> map fst kvs = [''seed'', ''subset'', ''restarts'', ''epsilon'', ''robustness'',
                      ''fooling_rate'', ''sorted_errors'']
    \<and> ComputeRobustness kw \<in> set (new_calls w w')
    \<and> compute_robustness env kw = Inr res
    \<and> kw_attack_kwargs kw = [(''epsilon'', VNum te)]
    \<and> map_of kvs ''epsilon'' = Some (VNum te)
    \<and> map_of kvs ''robustness'' = Some (robustness res)
    \<and> map_of kvs ''fooling_rate'' = Some (fooling_rate res)
    \<and> map_of kvs ''sorted_errors'' = Some (sorted_errors res)
    \<and> map_of kvs ''seed'' = Some seed
    \<and> map_of kvs ''subset'' = Some subset'
    \<and> map_of kvs ''restarts'' = Some restarts"
proof -
  let ?p = "checkpoint_file py (d, eps, m, lr, te)"
  from pgd_body_success_files[OF assms] obtain ckpt res kw where
    f: "files w ?p = Some (Pickled (VDict ckpt))"
    and cr: "compute_robustness env kw = Inr res"
    and kw: "kw_attack_kwargs kw = [(''epsilon'', VNum te)]"
    and tr: "ComputeRobustness kw \<in> set (new_calls w w')"
    and f': "files w' = (files w)(?p \<mapsto> Pickled (VDict (AList.update ''PGD''
           (VList (pgd_entries ckpt @ [attack_record seed subset' restarts te res])) ckpt)))"
    by blast
  have st: "stored_pgd (files w') ?p
      = stored_pgd (files w) ?p @ [attack_record seed subset' restarts te res]"
    unfolding f' using f by (simp add: stored_pgd_after_append)
  show ?thesis
    apply (rule exI[of _ "[(''seed'', seed), (''subset'', subset'), (''restarts'', restarts),
            (''epsilon'', VNum te), (''robustness'', robustness res),
            (''fooling_rate'', fooling_rate res), (''sorted_errors'', sorted_errors res)]"])
    apply (rule exI[of _ kw], rule exI[of _ res])
    using st cr kw tr by (simp add: attack_record_def)
qed

theorem attack_record_shape_witness:
  "pgd_body example_python example_env True VNone (VNum (PyInt 1)) VNone 0
     (''MNIST'', PyFloat (3/100), ''small'', PyInt 0, PyFloat (1/10)) example_world
     = (example_world1, None)
   \<and> (\<exists>kvs. stored_pgd (files example_world1) ''dm_torch/mnist-small-0.03.pth'' = [VDict kvs]
        \<and> map fst kvs = [''seed'', ''subset'', ''restarts'', ''epsilon'', ''robustness'',
                      ''fooling_rate'', ''sorted_errors'']
        \<and> map_of kvs ''epsilon'' = Some (VNum (PyFloat (1/10)))
        \<and> map_of kvs ''robustness'' = Some (VNum (PyFloat (1/2)))
        \<and> map_of kvs ''fooling_rate'' = Some (VNum (PyFloat (1/4)))
        \<and> map_of kvs ''sorted_errors'' = Some (VList [VNum (PyFloat (- 1)), VNum (PyFloat 2)])
        \<and> map_of kvs ''seed'' = Some VNone
        \<and> map_of kvs ''subset'' = Some VNone
        \<and> map_of kvs ''restarts'' = Some (VNum (PyInt 1)))"
proof -
  have e: "stored_pgd (files example_world) ''dm_torch/mnist-small-0.03.pth'' = []"
    by (simp add: stored_pgd_def pgd_entries_def example_world_def)
  have c: "compute_robustness example_env kw = Inr res \<longleftrightarrow> res = example_results" for kw res
    by (auto simp: example_env_def)
  from attack_record_shape[OF example_world1_run] e
  show ?thesis
    by (auto simp: example_checkpoint_file example_world1_run c example_results_def)
qed

text \<open>An iteration that returns has found a usable checkpoint and a successful attack.\<close>

lemma pgd_body_fails:
  fixes env :: "'net collaborators"
  assumes "(\<exists>err. torch_load (checkpoint_file py e) w = Inl err)
         \<or> (\<exists>c. torch_load (checkpoint_file py e) w = Inr c
                \<and> (\<exists>err. getitem c ''state_dict'' = Inl err))
         \<or> (\<forall>kw. \<exists>err. compute_robustness env kw = Inl err)"
  shows "snd (pgd_body py env True s r sd i e w) \<noteq> None"
proof
  assume n: "snd (pgd_body py env True s r sd i e w) = None"
  obtain d eps m lr te where e: "e = (d, eps, m, lr, te)"
    by (cases e)
  obtain w' where "pgd_body py env True s r sd i (d, eps, m, lr, te) w = (w', None)"
    using n unfolding e by (cases "pgd_body py env True s r sd i (d, eps, m, lr, te) w") simp
  from pgd_run_success[OF this[unfolded pgd_body_run]]
  obtain ckpt state kw res where
    f: "files w (checkpoint_file py e) = Some (Pickled (VDict ckpt))"
    and k: "map_of ckpt ''state_dict'' = Some state"
    and c: "compute_robustness env kw = Inr res"
    unfolding e by auto
  from f have l: "torch_load (checkpoint_file py e) w = Inr (VDict ckpt)"
    by (simp add: torch_load_Inr)
  from assms show False
  proof (elim disjE exE conjE)
    fix err assume "torch_load (checkpoint_file py e) w = Inl err"
    with l show False by simp
  next
    fix c' err
    assume "torch_load (checkpoint_file py e) w = Inr c'" "getitem c' ''state_dict'' = Inl err"
    with l k show False by auto
  next
    assume "\<forall>kw. \<exists>err. compute_robustness env kw = Inl err"
    then obtain err where "compute_robustness env kw = Inl err" by blast
    with c show False by simp
  qed
qed

text \<open>
  C7, as the code has it. When the run of \<^verbatim>\<open>pgd\<close> on one experiment raises, the disk is
  as it was when that experiment started and no \<^verbatim>\<open>torch.save\<close> was made; hence an
  invocation with an index that raises leaves the disk as it found it. Loading that
  fails, a checkpoint without \<^verbatim>\<open>'state_dict'\<close> and an attack that raises each make the
  run on the experiment raise, hence leave the disk unchanged by it.
\<close>

theorem pgd_failure_leaves_disk:
  fixes env :: "'net collaborators"
  shows
   "(pgd_body py env True subset' restarts seed i e w = (w', Some err) \<longrightarrow>
       files w' = files w \<and> (\<forall>c \<in> set (new_calls w w'). \<not> is_TorchSave c))
  \<and> (pgd py env True (Some i) subset' restarts seed w = (w', Some err) \<longrightarrow> files w' = files w)
  \<and> ((\<exists>err. torch_load (checkpoint_file py e) w = Inl err)
       \<or> (\<exists>c. torch_load (checkpoint_file py e) w = Inr c
              \<and> (\<exists>err. getitem c ''state_dict'' = Inl err))
       \<or> (\<forall>kw. \<exists>err. compute_robustness env kw = Inl err) \<longrightarrow>
       snd (pgd_body py env True subset' restarts seed i e w) \<noteq> None
     \<and> files (fst (pgd_body py env True subset' restarts seed i e w)) = files w)"
proof (intro conjI impI)
  assume "pgd_body py env True subset' restarts seed i e w = (w', Some err)"
  then show "files w' = files w" and "\<forall>c \<in> set (new_calls w w'). \<not> is_TorchSave c"
    by (rule pgd_body_error)+
next
  assume a: "pgd py env True (Some i) subset' restarts seed w = (w', Some err)"
  show "files w' = files w"
  proof (cases "i < length experiments")
    case True
    with a have "pgd_body py env True subset' restarts seed i (experiments ! i) w = (w', Some err)"
      by (simp add: pgd_select)
    then show ?thesis by (rule pgd_body_error)
  next
    case False
    with a show ?thesis by (simp add: pgd_out_of_range)
  qed
next
  assume c: "(\<exists>err. torch_load (checkpoint_file py e) w = Inl err)
       \<or> (\<exists>c. torch_load (checkpoint_file py e) w = Inr c
              \<and> (\<exists>err. getitem c ''state_dict'' = Inl err))
       \<or> (\<forall>kw. \<exists>err. compute_robustness env kw = Inl err)"
  then show n: "snd (pgd_body py env True subset' restarts seed i e w) \<noteq> None"
    by (rule pgd_body_fails)
  then obtain w'' err' where "pgd_body py env True subset' restarts seed i e w = (w'', Some err')"
    by (cases "pgd_body py env True subset' restarts seed i e w") auto
  then show "files (fst (pgd_body py env True subset' restarts seed i e w)) = files w"
    using pgd_body_error(1) by fastforce
qed

lemma experiments_head:
  "experiments ! 0 = (''MNIST'', PyFloat (3/100), ''small'', PyInt 0, PyFloat (1/10))"
  by code_simp

lemma length_experiments: "length experiments = 80"
  by code_simp

lemma example_missing_file:
  "pgd_body example_python example_env True VNone (VNum (PyInt 1)) VNone 0
     (''MNIST'', PyFloat (3/100), ''small'', PyInt 0, PyFloat (1/10)) empty_world
   = (\<lparr>stdout = [''0 MNIST-small-0.03 0 0.1''], files = Map.empty,
       trace = [ModelCtor ''small_cnn'', FitToDataset 0 ''MNIST'',
                TorchLoad ''dm_torch/mnist-small-0.03.pth'']\<rparr>,
      Some (FileNotFoundError ''dm_torch/mnist-small-0.03.pth''))"
  by (simp add: example_run_simps empty_world_def)

lemma example_missing_key:
  "pgd_body example_python example_env True VNone (VNum (PyInt 1)) VNone 0
     (''MNIST'', PyFloat (3/100), ''small'', PyInt 0, PyFloat (1/10)) headless_world
   = (\<lparr>stdout = [''0 MNIST-small-0.03 0 0.1''], files = files headless_world,
       trace = [ModelCtor ''small_cnn'', FitToDataset 0 ''MNIST'',
                TorchLoad ''dm_torch/mnist-small-0.03.pth'']\<rparr>,
      Some (KeyError ''state_dict''))"
  by (simp add: example_run_simps headless_world_def)

lemma example_pgd_select:
  "pgd py env run (Some 0) s r sd w =
     pgd_body py env run s r sd 0
       (''MNIST'', PyFloat (3/100), ''small'', PyInt 0, PyFloat (1/10)) w"
  using pgd_select[of 0 py env run s r sd w] by (simp add: length_experiments experiments_head)

theorem pgd_failure_leaves_disk_witness:
  "pgd example_python example_env True (Some 0) VNone (VNum (PyInt 1)) VNone empty_world
     = (\<lparr>stdout = [''0 MNIST-small-0.03 0 0.1''], files = Map.empty,
         trace = [ModelCtor ''small_cnn'', FitToDataset 0 ''MNIST'',
                  TorchLoad ''dm_torch/mnist-small-0.03.pth'']\<rparr>,
        Some (FileNotFoundError ''dm_torch/mnist-small-0.03.pth''))
   \<and> files empty_world = Map.empty
   \<and> torch_load ''dm_torch/mnist-small-0.03.pth'' headless_world
       = Inr (VDict [(''best_acc1'', VNum (PyFloat (9/10)))])
   \<and> getitem (VDict [(''best_acc1'', VNum (PyFloat (9/10)))]) ''state_dict''
       = Inl (KeyError ''state_dict'')
   \<and> snd (pgd_body example_python example_env True VNone (VNum (PyInt 1)) VNone 0
         (''MNIST'', PyFloat (3/100), ''small'', PyInt 0, PyFloat (1/10)) headless_world)
       \<noteq> None
   \<and> files (fst (pgd_body example_python example_env True VNone (VNum (PyInt 1)) VNone 0
         (''MNIST'', PyFloat (3/100), ''small'', PyInt 0, PyFloat (1/10)) headless_world))
       = files headless_world
   \<and> compute_robustness failing_env = (\<lambda>kw. Inl (Raised ''out of memory''))
   \<and> snd (pgd_body example_python failing_env True VNone (VNum (PyInt 1)) VNone 0
         (''MNIST'', PyFloat (3/100), ''small'', PyInt 0, PyFloat (1/10)) example_world)
       \<noteq> None
   \<and> files (fst (pgd_body example_python failing_env True VNone (VNum (PyInt 1)) VNone 0
         (''MNIST'', PyFloat (3/100), ''small'', PyInt 0, PyFloat (1/10)) example_world))
       = files example_world"
proof -
  let ?e = "(''MNIST'', PyFloat (3/100), ''small'', PyInt 0, PyFloat (1/10))"
  have run: "pgd example_python example_env True (Some 0) VNone (VNum (PyInt 1)) VNone empty_world
     = (\<lparr>stdout = [''0 MNIST-small-0.03 0 0.1''], files = Map.empty,
         trace = [ModelCtor ''small_cnn'', FitToDataset 0 ''MNIST'',
                  TorchLoad ''dm_torch/mnist-small-0.03.pth'']\<rparr>,
        Some (FileNotFoundError ''dm_torch/mnist-small-0.03.pth''))"
    by (simp only: example_pgd_select example_missing_file)
  have load: "torch_load ''dm_torch/mnist-small-0.03.pth'' headless_world
       = Inr (VDict [(''best_acc1'', VNum (PyFloat (9/10)))])"
    by (simp add: torch_load_def headless_world_def)
  have key: "getitem (VDict [(''best_acc1'', VNum (PyFloat (9/10)))]) ''state_dict''
       = Inl (KeyError ''state_dict'')"
    by simp
  have raises: "compute_robustness failing_env = (\<lambda>kw. Inl (Raised ''out of memory''))"
    by (simp add: failing_env_def)
  note inst = pgd_failure_leaves_disk[where py = example_python and subset' = VNone
      and restarts = "VNum (PyInt 1)" and seed = VNone and i = 0 and e = ?e]
  from inst[where env = example_env and w = empty_world
      and w' = "\<lparr>stdout = [''0 MNIST-small-0.03 0 0.1''], files = Map.empty,
         trace = [ModelCtor ''small_cnn'', FitToDataset 0 ''MNIST'',
                  TorchLoad ''dm_torch/mnist-small-0.03.pth'']\<rparr>"
      and err = "FileNotFoundError ''dm_torch/mnist-small-0.03.pth''",
      THEN conjunct2, THEN conjunct1] run
  have "files empty_world = Map.empty"
    by simp
  moreover from inst[where env = example_env and w = headless_world, THEN conjunct2, THEN conjunct2]
    load key
  have "snd (pgd_body example_python example_env True VNone (VNum (PyInt 1)) VNone 0 ?e
               headless_world) \<noteq> None
      \<and> files (fst (pgd_body example_python example_env True VNone (VNum (PyInt 1)) VNone 0 ?e
               headless_world)) = files headless_world"
    by (simp add: example_checkpoint_file)
  moreover from inst[where env = failing_env and w = example_world, THEN conjunct2, THEN conjunct2]
    raises
  have "snd (pgd_body example_python failing_env True VNone (VNum (PyInt 1)) VNone 0 ?e
               example_world) \<noteq> None
      \<and> files (fst (pgd_body example_python failing_env True VNone (VNum (PyInt 1)) VNone 0 ?e
               example_world)) = files example_world"
    by simp
  ultimately show ?thesis
    using run load key raises by simp
qed

lemma experiments_second:
  "experiments ! 1 = (''MNIST'', PyFloat (3/100), ''small'', PyInt 0, PyFloat (2/10))"
  by code_simp

lemma experiments_split:
  "\<exists>rest. experiments = (''MNIST'', PyFloat (3/100), ''small'', PyInt 0, PyFloat (1/10))
     # (''MNIST'', PyFloat (3/100), ''small'', PyInt 0, PyFloat (2/10)) # rest"
proof -
  have "2 \<le> length experiments"
    by (simp add: length_experiments)
  then obtain a b rest where e: "experiments = a # b # rest"
    by (metis Suc_le_length_iff numeral_2_eq_2)
  from experiments_head[unfolded e] experiments_second[unfolded e]
  have "a = (''MNIST'', PyFloat (3/100), ''small'', PyInt 0, PyFloat (1/10))"
    and "b = (''MNIST'', PyFloat (3/100), ''small'', PyInt 0, PyFloat (2/10))"
    by simp_all
  with e show ?thesis
    by blast
qed

lemma flaky_first:
  "pgd_body example_python flaky_env True VNone (VNum (PyInt 1)) VNone 0
     (''MNIST'', PyFloat (3/100), ''small'', PyInt 0, PyFloat (1/10)) example_world
   = (\<lparr>stdout = [''0 MNIST-small-0.03 0 0.1''],
       files = [''dm_torch/mnist-small-0.03.pth'' \<mapsto> Pickled (VDict
          [(''state_dict'', VDict []),
           (''PGD'', VList [attack_record VNone VNone (VNum (PyInt 1)) (PyFloat (1/10)) example_results])])],
       trace = [ModelCtor ''small_cnn'', FitToDataset 0 ''MNIST'',
                TorchLoad ''dm_torch/mnist-small-0.03.pth'', LoadStateDict 1 (VDict []),
                ComputeRobustness \<lparr>kw_net = 2, kw_dataset = ''MNIST'', kw_device = ''cpu'',
                    kw_attack_name = ''PGD'', kw_restarts = VNum (PyInt 1), kw_subset = VNone,
                    kw_subset_seed = VNone,
                    kw_attack_kwargs = [(''epsilon'', VNum (PyFloat (1/10)))]\<rparr>,
                TorchSave (VDict
          [(''state_dict'', VDict []),
           (''PGD'', VList [attack_record VNone VNone (VNum (PyInt 1)) (PyFloat (1/10)) example_results])])
                  ''dm_torch/mnist-small-0.03.pth'']\<rparr>, None)"
  by (simp add: example_run_simps flaky_env_def)

lemma flaky_second:
  assumes "files w ''dm_torch/mnist-small-0.03.pth'' = Some (Pickled (VDict ckpt))"
    and "map_of ckpt ''state_dict'' = Some state"
  shows "snd (pgd_body example_python flaky_env True VNone (VNum (PyInt 1)) VNone i
     (''MNIST'', PyFloat (3/100), ''small'', PyInt 0, PyFloat (2/10)) w)
       = Some (Raised ''out of memory'')"
    and "files (fst (pgd_body example_python flaky_env True VNone (VNum (PyInt 1)) VNone i
     (''MNIST'', PyFloat (3/100), ''small'', PyInt 0, PyFloat (2/10)) w)) = files w"
  using assms
  by (simp_all add: pgd_body_def pgd_run_def example_checkpoint_file flaky_env_def
      example_env_def Let_def torch_load_def)

lemma parse_run:
  "parse_command py run_index_params [''--run'']
     = Inr [(''run'', VBool True), (''index'', VNone)]"
  by (simp add: parse_command_def run_index_params_def process_param_def looks_like_option_def)

text \<open>
  C7, as stated for every run invocation, fails on the code. Without an index the loop
  goes on to the next experiment after saving: with \<^verbatim>\<open>ibp pgd --run\<close>, experiment 0
  rewrites \<^verbatim>\<open>dm_torch/mnist-small-0.03.pth\<close>, experiment 1 uses the same file and its attack
  raises, and the invocation ends with that error and the file changed.
\<close>

theorem pgd_run_without_index_rewrites_disk:
  "snd (pgd_command example_python flaky_env [''--run''] example_world)
     = Some (Raised ''out of memory'')
   \<and> files example_world ''dm_torch/mnist-small-0.03.pth''
     = Some (Pickled (VDict [(''state_dict'', VDict [])]))
   \<and> files (fst (pgd_command example_python flaky_env [''--run''] example_world))
       ''dm_torch/mnist-small-0.03.pth''
     = Some (Pickled (VDict
          [(''state_dict'', VDict []),
           (''PGD'', VList [attack_record VNone VNone (VNum (PyInt 1)) (PyFloat (1/10))
                             example_results])]))"
proof -
  let ?p = "''dm_torch/mnist-small-0.03.pth''"
  let ?c1 = "[(''state_dict'', VDict []),
           (''PGD'', VList [attack_record VNone VNone (VNum (PyInt 1)) (PyFloat (1/10))
                             example_results])]"
  obtain w1 where b0: "pgd_body example_python flaky_env True VNone (VNum (PyInt 1)) VNone 0
     (''MNIST'', PyFloat (3/100), ''small'', PyInt 0, PyFloat (1/10)) example_world
       = (w1, None)"
    and f1: "files w1 ?p = Some (Pickled (VDict ?c1))"
    using flaky_first by simp
  have k: "map_of ?c1 ''state_dict'' = Some (VDict [])"
    by simp
  obtain w2 where b1: "pgd_body example_python flaky_env True VNone (VNum (PyInt 1)) VNone (Suc 0)
     (''MNIST'', PyFloat (3/100), ''small'', PyInt 0, PyFloat (2/10)) w1
       = (w2, Some (Raised ''out of memory''))"
    and f2: "files w2 = files w1"
    using flaky_second[OF f1 k, of "Suc 0"]
    by (cases "pgd_body example_python flaky_env True VNone (VNum (PyInt 1)) VNone (Suc 0)
     (''MNIST'', PyFloat (3/100), ''small'', PyInt 0, PyFloat (2/10)) w1") simp
  obtain rest where e: "experiments
      = (''MNIST'', PyFloat (3/100), ''small'', PyInt 0, PyFloat (1/10))
        # (''MNIST'', PyFloat (3/100), ''small'', PyInt 0, PyFloat (2/10)) # rest"
    using experiments_split by blast
  have "pgd example_python flaky_env True None VNone (VNum (PyInt 1)) VNone example_world
      = (w2, Some (Raised ''out of memory''))"
    unfolding pgd_def e enumerate_simps pgd_loop.simps
    using b0 b1 by simp
  then have cmd: "pgd_command example_python flaky_env [''--run''] example_world
      = (w2, Some (Raised ''out of memory''))"
    by (simp add: pgd_command_def pgd_callback_def parse_run kwarg_def kwarg_flag_def
        kwarg_index_def)
  have e0: "files example_world ?p = Some (Pickled (VDict [(''state_dict'', VDict [])]))"
    by (simp add: example_world_def)
  from cmd f2 f1 e0 show ?thesis
    by simp
qed

text \<open>
  C3. When the checkpoint file of an experiment unpickles to a dictionary without the
  key \<^verbatim>\<open>'state_dict'\<close>, the run of \<^verbatim>\<open>pgd\<close> ends with Python's \<^verbatim>\<open>KeyError\<close> naming that
  key (the model and the dataset fitting having succeeded); a file that does not unpickle
  ends it with the deserialization error instead.
\<close>

theorem missing_state_dict_raises_KeyError:
  fixes env :: "'net collaborators"
  assumes "models_dict env (m @ ''_cnn'') = Some (Inr net0)"
    and "fit_to_dataset env net0 d = Inr net1"
  shows
   "(files w (checkpoint_file py (d, eps, m, lr, te)) = Some (Pickled (VDict ckpt))
       \<and> map_of ckpt ''state_dict'' = None \<longrightarrow>
     snd (pgd_body py env True subset' restarts seed i (d, eps, m, lr, te) w)
       = Some (KeyError ''state_dict''))
  \<and> (files w (checkpoint_file py (d, eps, m, lr, te)) = Some Corrupt \<longrightarrow>
     snd (pgd_body py env True subset' restarts seed i (d, eps, m, lr, te) w)
       = Some (UnpicklingError (checkpoint_file py (d, eps, m, lr, te))))"
  using assms by (simp add: pgd_body_run pgd_run_def Let_def torch_load_def)

theorem missing_state_dict_raises_KeyError_witness:
  "models_dict example_env (''small'' @ ''_cnn'') = Some (Inr 0)
   \<and> fit_to_dataset example_env 0 ''MNIST'' = Inr 1
   \<and> files headless_world ''dm_torch/mnist-small-0.03.pth''
        = Some (Pickled (VDict [(''best_acc1'', VNum (PyFloat (9/10)))]))
   \<and> map_of [(''best_acc1'', VNum (PyFloat (9/10)))] ''state_dict'' = None
   \<and> snd (pgd_body example_python example_env True VNone (VNum (PyInt 1)) VNone 0
         (''MNIST'', PyFloat (3/100), ''small'', PyInt 0, PyFloat (1/10)) headless_world)
       = Some (KeyError ''state_dict'')
   \<and> files corrupt_world ''dm_torch/mnist-small-0.03.pth'' = Some Corrupt
   \<and> snd (pgd_body example_python example_env True VNone (VNum (PyInt 1)) VNone 0
         (''MNIST'', PyFloat (3/100), ''small'', PyInt 0, PyFloat (1/10)) corrupt_world)
       = Some (UnpicklingError ''dm_torch/mnist-small-0.03.pth'')"
proof -
  have m: "models_dict example_env (''small'' @ ''_cnn'') = Some (Inr 0)"
    and f: "fit_to_dataset example_env 0 ''MNIST'' = Inr 1"
    by (simp_all add: example_env_def)
  have h: "files headless_world ''dm_torch/mnist-small-0.03.pth''
        = Some (Pickled (VDict [(''best_acc1'', VNum (PyFloat (9/10)))]))"
    and c: "files corrupt_world ''dm_torch/mnist-small-0.03.pth'' = Some Corrupt"
    by (simp_all add: headless_world_def corrupt_world_def)
  have k: "map_of [(''best_acc1'', VNum (PyFloat (9/10)))] ''state_dict'' = None"
    by simp
  note inst = missing_state_dict_raises_KeyError[OF m f, where py = example_python
      and eps = "PyFloat (3/100)" and lr = "PyInt 0" and te = "PyFloat (1/10)"
      and subset' = VNone and restarts = "VNum (PyInt 1)" and seed = VNone and i = 0]
  from inst[where w = headless_world and ckpt = "[(''best_acc1'', VNum (PyFloat (9/10)))]",
      THEN conjunct1] h k
  have "snd (pgd_body example_python example_env True VNone (VNum (PyInt 1)) VNone 0
         (''MNIST'', PyFloat (3/100), ''small'', PyInt 0, PyFloat (1/10)) headless_world)
       = Some (KeyError ''state_dict'')"
    by (simp add: example_checkpoint_file)
  moreover from inst[where w = corrupt_world, THEN conjunct2] c
  have "snd (pgd_body example_python example_env True VNone (VNum (PyInt 1)) VNone 0
         (''MNIST'', PyFloat (3/100), ''small'', PyInt 0, PyFloat (1/10)) corrupt_world)
       = Some (UnpicklingError ''dm_torch/mnist-small-0.03.pth'')"
    by (simp add: example_checkpoint_file)
  ultimately show ?thesis
    using m f h c k by simp
qed

subsection \<open>The enumeration of pgd\<close>

lemma experiments_loop_filter:
  "experiments_loop xs =
     filter (\<lambda>(dataset, epsilon, model, learning_rate, test_epsilon).
       if dataset = ''CIFAR10''
       then py_eq test_epsilon (PyFloat (2/255)) \<and> py_eq epsilon (PyFloat (1/100))
       else \<not> py_eq test_epsilon (PyFloat (2/255)) \<and> \<not> py_eq epsilon (PyFloat (1/100))) xs"
  by (induction xs rule: experiments_loop.induct) auto

lemma set_product5:
  "set (product5 as bs cs ds es) =
     {(a, b, c, d, e). a \<in> set as \<and> b \<in> set bs \<and> c \<in> set cs \<and> d \<in> set ds \<and> e \<in> set es}"
  by (fastforce simp: product5_def)

lemma py_eq_PyFloat [simp]: "py_eq (PyFloat a) (PyFloat b) \<longleftrightarrow> a = b"
  by (simp add: py_eq_def)

lemma pgd_epsilons_floats: "e \<in> set pgd_epsilons \<Longrightarrow> e = PyFloat (num_val e)"
  by (auto simp: pgd_epsilons_def)

lemma test_epsilons_floats: "t \<in> set test_epsilons \<Longrightarrow> t = PyFloat (num_val t)"
  by (auto simp: test_epsilons_def)

lemma py_eq_on_floats: "x = PyFloat (num_val x) \<Longrightarrow> py_eq x (PyFloat c) \<longleftrightarrow> x = PyFloat c"
  by (cases x) simp_all

lemma experiments_cifar:
  "experiments ! 72 = (''CIFAR10'', PyFloat (1/100), ''small'', PyInt 0, PyFloat (2/255))"
  by code_simp

text \<open>
  C9. The experiments of \<^verbatim>\<open>pgd\<close> are the tuples of the cartesian product, in its order,
  for which CIFAR10 goes with test epsilon 2/255 and epsilon 0.01 and MNIST goes with
  neither. An index selects the tuple at that position of this fixed list, and a learning
  rate equal to 0 gives the path under \<^verbatim>\<open>dm_torch/\<close> built from the lowercased dataset.
\<close>

theorem pgd_experiments_enumeration:
  "experiments =
     filter (\<lambda>(dataset, epsilon, model, learning_rate, test_epsilon).
         (dataset = ''CIFAR10'' \<longrightarrow>
            test_epsilon = PyFloat (2/255) \<and> epsilon = PyFloat (1/100))
       \<and> (dataset = ''MNIST'' \<longrightarrow>
            test_epsilon \<noteq> PyFloat (2/255) \<and> epsilon \<noteq> PyFloat (1/100)))
       (product5 pgd_datasets pgd_epsilons model_size pgd_learning_rates test_epsilons)
   \<and> (i < length experiments \<longrightarrow>
        pgd py env run (Some i) subset' restarts seed w
          = pgd_body py env run subset' restarts seed i (experiments ! i) w)
   \<and> (py_eq learning_rate (PyInt 0) \<longrightarrow>
        checkpoint_file py (dataset, epsilon, model, learning_rate, test_epsilon)
          = ''dm_torch/'' @ lower dataset @ ''-'' @ model @ ''-'' @ str_of_num py epsilon @ ''.pth'')"
proof (intro conjI impI)
  show "experiments =
     filter (\<lambda>(dataset, epsilon, model, learning_rate, test_epsilon).
         (dataset = ''CIFAR10'' \<longrightarrow>
            test_epsilon = PyFloat (2/255) \<and> epsilon = PyFloat (1/100))
       \<and> (dataset = ''MNIST'' \<longrightarrow>
            test_epsilon \<noteq> PyFloat (2/255) \<and> epsilon \<noteq> PyFloat (1/100)))
       (product5 pgd_datasets pgd_epsilons model_size pgd_learning_rates test_epsilons)"
    unfolding experiments_def experiments_loop_filter
  proof (rule filter_cong[OF refl])
    fix x
    assume "x \<in> set (product5 pgd_datasets pgd_epsilons model_size pgd_learning_rates
                       test_epsilons)"
    then obtain d e m l t where x: "x = (d, e, m, l, t)"
      and d: "d \<in> set pgd_datasets"
      and e: "e \<in> set pgd_epsilons" and t: "t \<in> set test_epsilons"
      by (auto simp: set_product5)
    from d have d: "d = ''MNIST'' \<or> d = ''CIFAR10''"
      by (simp add: pgd_datasets_def)
    note ab = py_eq_on_floats[OF pgd_epsilons_floats[OF e]]
      py_eq_on_floats[OF test_epsilons_floats[OF t]]
    from d show "(case x of (dataset, epsilon, model, learning_rate, test_epsilon) \<Rightarrow>
            if dataset = ''CIFAR10''
            then py_eq test_epsilon (PyFloat (2/255)) \<and> py_eq epsilon (PyFloat (1/100))
            else \<not> py_eq test_epsilon (PyFloat (2/255)) \<and> \<not> py_eq epsilon (PyFloat (1/100)))
        = (case x of (dataset, epsilon, model, learning_rate, test_epsilon) \<Rightarrow>
            (dataset = ''CIFAR10'' \<longrightarrow>
               test_epsilon = PyFloat (2/255) \<and> epsilon = PyFloat (1/100))
          \<and> (dataset = ''MNIST'' \<longrightarrow>
               test_epsilon \<noteq> PyFloat (2/255) \<and> epsilon \<noteq> PyFloat (1/100)))"
      unfolding x by (elim disjE) (simp_all add: ab)
  qed
next
  assume "i < length experiments"
  then show "pgd py env run (Some i) subset' restarts seed w
          = pgd_body py env run subset' restarts seed i (experiments ! i) w"
    by (rule pgd_select)
next
  assume "py_eq learning_rate (PyInt 0)"
  then show "checkpoint_file py (dataset, epsilon, model, learning_rate, test_epsilon)
          = ''dm_torch/'' @ lower dataset @ ''-'' @ model @ ''-'' @ str_of_num py epsilon @ ''.pth''"
    by (simp add: checkpoint_file_def)
qed

theorem pgd_experiments_enumeration_witness:
  "length experiments = 80
   \<and> experiments ! 0 = (''MNIST'', PyFloat (3/100), ''small'', PyInt 0, PyFloat (1/10))
   \<and> experiments ! 72 = (''CIFAR10'', PyFloat (1/100), ''small'', PyInt 0, PyFloat (2/255))
   \<and> (''CIFAR10'', PyFloat (1/100), ''small'', PyInt 0, PyFloat (2/255))
        \<in> set (product5 pgd_datasets pgd_epsilons model_size pgd_learning_rates test_epsilons)
   \<and> (''MNIST'', PyFloat (3/100), ''small'', PyInt 0, PyFloat (2/255)) \<notin> set experiments
   \<and> pgd example_python example_env False (Some 0) VNone (VNum (PyInt 1)) VNone example_world
        = pgd_body example_python example_env False VNone (VNum (PyInt 1)) VNone 0
            (''MNIST'', PyFloat (3/100), ''small'', PyInt 0, PyFloat (1/10)) example_world
   \<and> py_eq (PyInt 0) (PyInt 0)
   \<and> checkpoint_file example_python (''MNIST'', PyFloat (3/100), ''small'', PyInt 0, PyFloat (1/10))
        = ''dm_torch/mnist-small-0.03.pth''"
proof -
  note inst = pgd_experiments_enumeration[where i = 0 and py = example_python
      and env = example_env and run = False and subset' = VNone and restarts = "VNum (PyInt 1)"
      and seed = VNone and w = example_world and learning_rate = "PyInt 0"
      and dataset = "''MNIST''" and epsilon = "PyFloat (3/100)" and model = "''small''"
      and test_epsilon = "PyFloat (1/10)"]
  have in_product: "(''CIFAR10'', PyFloat (1/100), ''small'', PyInt 0, PyFloat (2/255))
        \<in> set (product5 pgd_datasets pgd_epsilons model_size pgd_learning_rates test_epsilons)"
    by (simp add: set_product5 pgd_datasets_def pgd_epsilons_def model_size_def
        pgd_learning_rates_def test_epsilons_def)
  have not_in: "(''MNIST'', PyFloat (3/100), ''small'', PyInt 0, PyFloat (2/255)) \<notin> set experiments"
    by (subst inst[THEN conjunct1]) (simp only: set_filter mem_Collect_eq, simp)
  have eq0: "py_eq (PyInt 0) (PyInt 0)"
    by (simp add: py_eq_def)
  from inst[THEN conjunct2, THEN conjunct1] inst[THEN conjunct2, THEN conjunct2] eq0
    length_experiments experiments_head experiments_cifar in_product not_in
  show ?thesis
    by (simp add: example_checkpoint_file)
qed

subsection \<open>Show mode\<close>

lemma pgd_loop_show:
  "pgd_loop py env False index s r sd xs w =
     (w\<lparr>stdout := stdout w @
          map (\<lambda>(i, dataset, epsilon, model, learning_rate, test_epsilon).
                 join_sp [str_of_num py (PyInt (int i)),
                          dataset @ ''-'' @ model @ ''-'' @ str_of_num py epsilon,
                          str_of_num py learning_rate, str_of_num py test_epsilon])
              (filter (\<lambda>(i, e). index = None \<or> index = Some i) xs)\<rparr>, None)"
proof (induction xs arbitrary: w)
  case Nil
  show ?case by simp
next
  case (Cons x xs)
  obtain i d eps m lr te where x: "x = (i, d, eps, m, lr, te)"
    by (cases x)
  show ?case
    unfolding x by (auto simp: Cons.IH pgd_body_show print_def)
qed

lemma experiment_body_show:
  "experiment_body py env False i (dataset, epsilon, learning_rate, model) w =
     (print [str_of_num py (PyInt (int i)),
             ''ibp basic --train -d '' @ dataset @ '' -m '' @ model
             @ '' -e '' @ str_of_num py epsilon @ '' -lr '' @ str_of_num py learning_rate
             @ '' -l '' @ (dataset @ ''-'' @ model @ ''-'' @ str_of_num py epsilon
                           @ ''/'' @ str_of_num py learning_rate)
             @ '' -c '' @ (dataset @ ''-'' @ model @ ''-'' @ str_of_num py epsilon
                           @ ''/'' @ str_of_num py learning_rate) @ ''/checkpoint.pth''] w, None)"
  by (simp add: experiment_body_def Let_def)

lemma experiment_loop_show:
  "experiment_loop py env False index xs w =
     (w\<lparr>stdout := stdout w @
          map (\<lambda>(i, dataset, epsilon, learning_rate, model).
                 join_sp [str_of_num py (PyInt (int i)),
                   ''ibp basic --train -d '' @ dataset @ '' -m '' @ model
                   @ '' -e '' @ str_of_num py epsilon @ '' -lr '' @ str_of_num py learning_rate
                   @ '' -l '' @ (dataset @ ''-'' @ model @ ''-'' @ str_of_num py epsilon
                                 @ ''/'' @ str_of_num py learning_rate)
                   @ '' -c '' @ (dataset @ ''-'' @ model @ ''-'' @ str_of_num py epsilon
                                 @ ''/'' @ str_of_num py learning_rate) @ ''/checkpoint.pth''])
              (filter (\<lambda>(i, c). index = None \<or> index = Some i) xs)\<rparr>, None)"
proof (induction xs arbitrary: w)
  case Nil
  show ?case by simp
next
  case (Cons x xs)
  obtain i d eps lr m where x: "x = (i, d, eps, lr, m)"
    by (cases x)
  show ?case
    unfolding x by (auto simp: Cons.IH experiment_body_show print_def)
qed

lemma parse_no_arguments:
  "parse_command py run_index_params [] = Inr [(''run'', VBool False), (''index'', VNone)]"
  by (simp add: parse_command_def run_index_params_def process_param_def)

text \<open>
  C8. With \<open>run\<close> unset, \<^verbatim>\<open>experiment\<close> and \<^verbatim>\<open>pgd\<close> return normally in a world that
  differs from the initial one only by the printed lines, one per enumerated
  configuration that matches the index: the disk and the trace of collaborator calls
  (model construction, loading, attack, saving, training) are untouched. A command line
  without a flag is such an invocation.
\<close>

theorem show_mode_only_prints:
  fixes env :: "'net collaborators"
  shows
   "experiment_callback py env False index w =
     (w\<lparr>stdout := stdout w @
          map (\<lambda>(i, dataset, epsilon, learning_rate, model).
                 join_sp [str_of_num py (PyInt (int i)),
                   ''ibp basic --train -d '' @ dataset @ '' -m '' @ model
                   @ '' -e '' @ str_of_num py epsilon @ '' -lr '' @ str_of_num py learning_rate
                   @ '' -l '' @ (dataset @ ''-'' @ model @ ''-'' @ str_of_num py epsilon
                                 @ ''/'' @ str_of_num py learning_rate)
                   @ '' -c '' @ (dataset @ ''-'' @ model @ ''-'' @ str_of_num py epsilon
                                 @ ''/'' @ str_of_num py learning_rate) @ ''/checkpoint.pth''])
              (filter (\<lambda>(i, c). index = None \<or> index = Some i)
                 (enumerate 0 configurations))\<rparr>, None)
  \<and> pgd py env False index subset' restarts seed w =
     (w\<lparr>stdout := stdout w @
          map (\<lambda>(i, dataset, epsilon, model, learning_rate, test_epsilon).
                 join_sp [str_of_num py (PyInt (int i)),
                          dataset @ ''-'' @ model @ ''-'' @ str_of_num py epsilon,
                          str_of_num py learning_rate, str_of_num py test_epsilon])
              (filter (\<lambda>(i, e). index = None \<or> index = Some i)
                 (enumerate 0 experiments))\<rparr>, None)
  \<and> files (fst (experiment_callback py env False index w)) = files w
  \<and> trace (fst (experiment_callback py env False index w)) = trace w
  \<and> files (fst (pgd py env False index subset' restarts seed w)) = files w
  \<and> trace (fst (pgd py env False index subset' restarts seed w)) = trace w
  \<and> experiment_command py env [] w = experiment_callback py env False None w
  \<and> pgd_command py env [] w = pgd py env False None VNone (VNum (PyInt 1)) VNone w"
  by (simp add: experiment_callback_def pgd_def experiment_loop_show pgd_loop_show
      experiment_command_def pgd_command_def pgd_callback_def parse_no_arguments
      kwarg_flag_def kwarg_index_def kwarg_def)

subsection \<open>The experiment command\<close>

lemma experiment_body_effect:
  fixes env :: "'net collaborators"
  assumes "experiment_body py env run i c w = (w', r)"
  shows "stdout w' = stdout w @ [join_sp [str_of_num py (PyInt (int i)), spec_command py c]]"
    and "run \<Longrightarrow> \<exists>call. trace w' = trace w @ [call] \<and> trains_configuration py c call"
    and "\<not> run \<Longrightarrow> trace w' = trace w"
proof -
  obtain d eps lr m where c: "c = (d, eps, lr, m)"
    by (cases c)
  show "stdout w' = stdout w @ [join_sp [str_of_num py (PyInt (int i)), spec_command py c]]"
    using assms unfolding c
    by (cases run)
       (auto simp: experiment_body_def Let_def basic_def spec_command_def spec_directory_def
          spec_checkpoint_def split: prod.splits)
  show "\<exists>call. trace w' = trace w @ [call] \<and> trains_configuration py c call" if run
    using assms that unfolding c
    by (auto simp: experiment_body_def Let_def basic_def trains_configuration_def
          spec_directory_def spec_checkpoint_def fill_defaults_def split: prod.splits)
  show "trace w' = trace w" if "\<not> run"
    using assms that unfolding c
    by (auto simp: experiment_body_def Let_def)
qed

lemma experiment_loop_effect:
  fixes env :: "'net collaborators"
  assumes "experiment_loop py env run index xs w = (w', r)"
  shows "\<exists>ls cs. stdout w' = stdout w @ ls \<and> trace w' = trace w @ cs
      \<and> (\<forall>l \<in> set ls. \<exists>(i, c) \<in> set xs.
             l = join_sp [str_of_num py (PyInt (int i)), spec_command py c])
      \<and> (\<forall>call \<in> set cs. \<exists>(i, c) \<in> set xs. trains_configuration py c call)"
  using assms
proof (induction xs arbitrary: w)
  case Nil
  then show ?case by simp
next
  case (Cons x xs)
  obtain i c where x: "x = (i, c)"
    by (cases x)
  show ?case
  proof (cases "index \<noteq> None \<and> Some i \<noteq> index")
    case True
    with Cons.prems have "experiment_loop py env run index xs w = (w', r)"
      by (simp add: x)
    from Cons.IH[OF this] show ?thesis
      by (fastforce simp: x)
  next
    case False
    obtain w1 r1 where b: "experiment_body py env run i c w = (w1, r1)"
      by (cases "experiment_body py env run i c w")
    have s1: "stdout w1 = stdout w @ [join_sp [str_of_num py (PyInt (int i)), spec_command py c]]"
      by (rule experiment_body_effect(1)[OF b])
    have t1: "\<exists>cs. trace w1 = trace w @ cs \<and> (\<forall>call \<in> set cs. trains_configuration py c call)"
      using experiment_body_effect(2,3)[OF b] by (cases run) auto
    then obtain cs1 where t1: "trace w1 = trace w @ cs1"
      and c1: "\<forall>call \<in> set cs1. trains_configuration py c call"
      by blast
    show ?thesis
    proof (cases r1)
      case (Some err)
      with Cons.prems False b have "w' = w1"
        by (auto simp: x)
      with s1 t1 c1 show ?thesis
        by (intro exI[of _ "[join_sp [str_of_num py (PyInt (int i)), spec_command py c]]"]
              exI[of _ cs1]) (auto simp: x)
    next
      case None
      with Cons.prems False b have "experiment_loop py env run index xs w1 = (w', r)"
        by (auto simp: x)
      from Cons.IH[OF this] obtain ls cs where
        "stdout w' = stdout w1 @ ls" "trace w' = trace w1 @ cs"
        "\<forall>l \<in> set ls. \<exists>(i, c) \<in> set xs.
             l = join_sp [str_of_num py (PyInt (int i)), spec_command py c]"
        "\<forall>call \<in> set cs. \<exists>(i, c) \<in> set xs. trains_configuration py c call"
        by blast
      with s1 t1 c1 show ?thesis
        by (intro exI[of _ "join_sp [str_of_num py (PyInt (int i)), spec_command py c] # ls"]
              exI[of _ "cs1 @ cs"]) (fastforce simp: x)
    qed
  qed
qed

lemma experiment_loop_skip:
  "\<forall>p \<in> set xs. fst p \<noteq> i \<Longrightarrow> experiment_loop py env run (Some i) xs w = (w, None)"
  by (induction xs) auto

lemma experiment_loop_select:
  "k < length xs \<Longrightarrow>
   experiment_loop py env run (Some (n + k)) (enumerate n xs) w =
     experiment_body py env run (n + k) (xs ! k) w"
proof (induction xs arbitrary: n k)
  case Nil
  then show ?case by simp
next
  case (Cons x xs)
  show ?case
  proof (cases k)
    case 0
    have "\<forall>p \<in> set (enumerate (Suc n) xs). fst p \<noteq> n"
      by (auto simp: in_set_enumerate_eq)
    then have "experiment_loop py env run (Some n) (enumerate (Suc n) xs) w' = (w', None)" for w'
      by (rule experiment_loop_skip)
    with 0 show ?thesis
      by (auto split: prod.splits option.splits)
  next
    case (Suc k')
    with Cons.prems have "k' < length xs" by simp
    from Cons.IH[OF this, of "Suc n"] Suc show ?thesis by simp
  qed
qed

text \<open>
  C6. For every configuration that \<^verbatim>\<open>experiment\<close> enumerates, the line printed is the
  command with \<^verbatim>\<open>-l\<close> the directory \<^verbatim>\<open>dataset-model-epsilon/learning_rate\<close> and \<^verbatim>\<open>-c\<close> that
  directory followed by \<^verbatim>\<open>/checkpoint.pth\<close>, and with \<open>run\<close> set the one call made
  passes the same two paths as \<^verbatim>\<open>log_dir\<close> and \<^verbatim>\<open>checkpoint\<close>. This holds for an iteration,
  for every line and call of a whole invocation, and an index selects the configuration at
  that position.
\<close>

theorem experiment_paths:
  fixes env :: "'net collaborators"
  shows
   "(experiment_body py env run i c w = (w', r) \<longrightarrow>
       new_lines w w' = [join_sp [str_of_num py (PyInt (int i)), spec_command py c]]
     \<and> (run \<longrightarrow> (\<exists>call. new_calls w w' = [call] \<and> trains_configuration py c call)))
  \<and> (experiment_callback py env run index w = (w', r) \<longrightarrow>
       (\<forall>l \<in> set (new_lines w w'). \<exists>(j, c') \<in> set (enumerate 0 configurations).
           l = join_sp [str_of_num py (PyInt (int j)), spec_command py c'])
     \<and> (\<forall>call \<in> set (new_calls w w'). \<exists>c' \<in> set configurations.
           trains_configuration py c' call))
  \<and> (i < length configurations \<longrightarrow>
       experiment_callback py env run (Some i) w
         = experiment_body py env run i (configurations ! i) w)"
proof (intro conjI impI)
  assume b: "experiment_body py env run i c w = (w', r)"
  from experiment_body_effect(1)[OF b]
  show "new_lines w w' = [join_sp [str_of_num py (PyInt (int i)), spec_command py c]]"
    by simp
  show "\<exists>call. new_calls w w' = [call] \<and> trains_configuration py c call" if run
    using experiment_body_effect(2)[OF b that] by auto
next
  assume a: "experiment_callback py env run index w = (w', r)"
  from experiment_loop_effect[OF a[unfolded experiment_callback_def]]
  obtain ls cs where s: "stdout w' = stdout w @ ls" and t: "trace w' = trace w @ cs"
    and l: "\<forall>l \<in> set ls. \<exists>(i, c) \<in> set (enumerate 0 configurations).
             l = join_sp [str_of_num py (PyInt (int i)), spec_command py c]"
    and c: "\<forall>call \<in> set cs. \<exists>(i, c) \<in> set (enumerate 0 configurations).
             trains_configuration py c call"
    by blast
  from s l show "\<forall>l \<in> set (new_lines w w'). \<exists>(j, c') \<in> set (enumerate 0 configurations).
           l = join_sp [str_of_num py (PyInt (int j)), spec_command py c']"
    by simp
  have "c' \<in> set configurations" if "(j, c') \<in> set (enumerate 0 configurations)" for j c'
    using that by (auto simp: in_set_enumerate_eq)
  with t c show "\<forall>call \<in> set (new_calls w w'). \<exists>c' \<in> set configurations.
           trains_configuration py c' call"
    by fastforce
next
  assume "i < length configurations"
  then show "experiment_callback py env run (Some i) w
         = experiment_body py env run i (configurations ! i) w"
    using experiment_loop_select[of i configurations py env run 0 w]
    by (simp add: experiment_callback_def)
qed

lemma length_configurations: "length configurations = 252"
  by code_simp

lemma configurations_head:
  "configurations ! 0 = (''MNIST'', PyFloat (1/1000), PyFloat (1/10), ''small_cnn'')"
  by code_simp

theorem experiment_paths_witness:
  "experiment_body example_python example_env True 0
       (''MNIST'', PyFloat (1/1000), PyFloat (1/10), ''small_cnn'') empty_world
     = (fst (experiment_body example_python example_env True 0
               (''MNIST'', PyFloat (1/1000), PyFloat (1/10), ''small_cnn'') empty_world),
        snd (experiment_body example_python example_env True 0
               (''MNIST'', PyFloat (1/1000), PyFloat (1/10), ''small_cnn'') empty_world))
   \<and> new_lines empty_world
        (fst (experiment_body example_python example_env True 0
               (''MNIST'', PyFloat (1/1000), PyFloat (1/10), ''small_cnn'') empty_world))
      = [''0 ibp basic --train -d MNIST -m small_cnn -e 0.001 -lr 0.1''
         @ '' -l MNIST-small_cnn-0.001/0.1 -c MNIST-small_cnn-0.001/0.1/checkpoint.pth'']
   \<and> (\<exists>kwargs. new_calls empty_world
        (fst (experiment_body example_python example_env True 0
               (''MNIST'', PyFloat (1/1000), PyFloat (1/10), ''small_cnn'') empty_world))
          = [TrainClassifier kwargs]
        \<and> map_of kwargs ''log_dir'' = Some (VStr ''MNIST-small_cnn-0.001/0.1'')
        \<and> map_of kwargs ''checkpoint'' = Some (VStr ''MNIST-small_cnn-0.001/0.1/checkpoint.pth''))
   \<and> 0 < length configurations
   \<and> experiment_callback example_python example_env True (Some 0) empty_world
      = experiment_body example_python example_env True 0
          (''MNIST'', PyFloat (1/1000), PyFloat (1/10), ''small_cnn'') empty_world"
proof -
  let ?c = "(''MNIST'', PyFloat (1/1000), PyFloat (1/10), ''small_cnn'')"
  let ?b = "experiment_body example_python example_env True 0 ?c empty_world"
  have dir: "spec_directory example_python ?c = ''MNIST-small_cnn-0.001/0.1''"
    and ckpt: "spec_checkpoint example_python ?c = ''MNIST-small_cnn-0.001/0.1/checkpoint.pth''"
    and cmd: "spec_command example_python ?c =
      ''ibp basic --train -d MNIST -m small_cnn -e 0.001 -lr 0.1''
         @ '' -l MNIST-small_cnn-0.001/0.1 -c MNIST-small_cnn-0.001/0.1/checkpoint.pth''"
    by (simp_all add: spec_command_def spec_checkpoint_def spec_directory_def
        example_str_of_num)
  have h: "?b = (fst ?b, snd ?b)"
    by simp
  note inst = experiment_paths[where py = example_python and env = example_env and run = True
      and i = 0 and w = empty_world]
  from inst[where c = ?c and w' = "fst ?b" and r = "snd ?b", THEN conjunct1] h
  have l: "new_lines empty_world (fst ?b)
             = [join_sp [str_of_num example_python (PyInt (int 0)), spec_command example_python ?c]]"
    and "\<exists>call. new_calls empty_world (fst ?b) = [call]
           \<and> trains_configuration example_python ?c call"
    by blast+
  then obtain call where n: "new_calls empty_world (fst ?b) = [call]"
    and t: "trains_configuration example_python ?c call"
    by blast
  from t obtain kwargs where k: "call = TrainClassifier kwargs"
    and "map_of kwargs ''log_dir'' = Some (VStr ''MNIST-small_cnn-0.001/0.1'')"
    and "map_of kwargs ''checkpoint'' = Some (VStr ''MNIST-small_cnn-0.001/0.1/checkpoint.pth'')"
    by (cases call) (simp_all add: trains_configuration_def dir ckpt)
  with n have calls: "\<exists>kwargs. new_calls empty_world (fst ?b) = [TrainClassifier kwargs]
        \<and> map_of kwargs ''log_dir'' = Some (VStr ''MNIST-small_cnn-0.001/0.1'')
        \<and> map_of kwargs ''checkpoint'' = Some (VStr ''MNIST-small_cnn-0.001/0.1/checkpoint.pth'')"
    by blast
  have len: "0 < length configurations"
    by (simp add: length_configurations)
  from inst[THEN conjunct2, THEN conjunct2] len
  have sel: "experiment_callback example_python example_env True (Some 0) empty_world = ?b"
    by (simp add: configurations_head)
  from l have l': "new_lines empty_world (fst ?b)
      = [''0 ibp basic --train -d MNIST -m small_cnn -e 0.001 -lr 0.1''
         @ '' -l MNIST-small_cnn-0.001/0.1 -c MNIST-small_cnn-0.001/0.1/checkpoint.pth'']"
    by (simp add: cmd example_str_of_num)
  from h l' calls len sel show ?thesis
    by blast
qed

subsection \<open>The click layer\<close>

lemma find_option_in_set: "find_option ds a = Some (d, p) \<Longrightarrow> d \<in> set ds"
  by (induction ds) (auto split: if_splits)

text \<open>Every declared parameter gets its processed value, under its destination name.\<close>

lemma process_params_keys: "process_params py ds acc = Inr kwargs \<Longrightarrow> map fst kwargs = map dest ds"
  by (induction ds arbitrary: kwargs) (auto split: sum.splits)

lemma process_params_value:
  assumes "process_params py ds acc = Inr kwargs" and "d \<in> set ds" and "distinct (map dest ds)"
  shows "\<exists>v. process_param py d acc = Inr v \<and> map_of kwargs (dest d) = Some v"
  using assms
proof (induction ds arbitrary: kwargs)
  case Nil
  then show ?case by simp
next
  case (Cons d' ds)
  from Cons.prems(1) obtain v' kw' where v': "process_param py d' acc = Inr v'"
    and kw': "process_params py ds acc = Inr kw'" and kwargs: "kwargs = (dest d', v') # kw'"
    by (auto split: sum.splits)
  show ?case
  proof (cases "d = d'")
    case True
    with v' kwargs show ?thesis by simp
  next
    case False
    with Cons.prems have d: "d \<in> set ds" and di: "distinct (map dest ds)"
      and "dest d' \<notin> dest ` set ds"
      by auto
    then have ne: "dest d \<noteq> dest d'"
      by (metis image_eqI)
    from Cons.IH[OF kw' d di] ne kwargs show ?thesis by simp
  qed
qed

text \<open>An option that does not occur on the command line keeps its entry.\<close>

lemma parse_args_untouched:
  assumes "parse_args ds argv acc largs = Inr (acc', largs')"
    and "\<forall>a \<in> set argv. \<forall>d p. find_option ds a = Some (d, p) \<longrightarrow> dest d \<noteq> k"
  shows "map_of acc' k = map_of acc k"
  using assms
proof (induction ds argv acc largs rule: parse_args.induct)
  case (1 ds acc largs)
  then show ?case by simp
next
  case (2 ds a acc largs)
  then show ?case
    by (auto simp: update_conv' split: if_splits option.splits prod.splits)
next
  case (3 ds a v rest acc largs)
  show ?case
  proof (cases "a = ''--''")
    case True
    with "3.prems" show ?thesis by simp
  next
    case dd: False
    show ?thesis
    proof (cases "looks_like_option a")
      case False
      with dd "3.prems" "3.IH"(3) show ?thesis by simp
    next
      case True
      show ?thesis
      proof (cases "find_option ds a")
        case None
        with dd True "3.prems" show ?thesis by simp
      next
        case (Some dp)
        obtain d p where dp: "dp = (d, p)" by (cases dp)
        from "3.prems"(2) Some dp have ne: "dest d \<noteq> k" by auto
        show ?thesis
        proof (cases "is_flag d")
          case f: True
          with dd True Some dp "3.prems"
          have "parse_args ds (v # rest) (AList.update (dest d) (RawFlag p) acc) largs
                  = Inr (acc', largs')"
            by simp
          from "3.IH"(1)[OF dd True Some dp[symmetric] f this] "3.prems"(2) ne
          show ?thesis by (simp add: update_conv')
        next
          case f: False
          with dd True Some dp "3.prems"
          have "parse_args ds rest (AList.update (dest d) (RawValue v) acc) largs
                  = Inr (acc', largs')"
            by simp
          from "3.IH"(2)[OF dd True Some dp[symmetric] f this] "3.prems"(2) ne
          show ?thesis by (simp add: update_conv')
        qed
      qed
    qed
  qed
qed

lemma well_formed_update:
  assumes "well_formed ds acc" and "d \<in> set ds" and "distinct (map dest ds)"
    and "is_flag d \<longleftrightarrow> (\<exists>b. x = RawFlag b)"
  shows "well_formed ds (AList.update (dest d) x acc)"
proof -
  have "d' = d" if "d' \<in> set ds" "dest d' = dest d" for d'
    using that assms(2,3) by (meson distinct_map inj_onD)
  with assms(1,4) show ?thesis
    unfolding well_formed_def by (auto simp: update_conv')
qed

lemma parse_args_well_formed:
  assumes "parse_args ds argv acc largs = Inr (acc', largs')"
    and "well_formed ds acc" and "distinct (map dest ds)"
  shows "well_formed ds acc'"
  using assms
proof (induction ds argv acc largs rule: parse_args.induct)
  case (1 ds acc largs)
  then show ?case by simp
next
  case (2 ds a acc largs)
  then show ?case
    by (auto split: if_splits option.splits prod.splits
          intro!: well_formed_update dest: find_option_in_set)
next
  case (3 ds a v rest acc largs)
  show ?case
  proof (cases "a = ''--''")
    case True
    with "3.prems" show ?thesis by simp
  next
    case dd: False
    show ?thesis
    proof (cases "looks_like_option a")
      case False
      with dd "3.prems" "3.IH"(3) show ?thesis by simp
    next
      case True
      show ?thesis
      proof (cases "find_option ds a")
        case None
        with dd True "3.prems" show ?thesis by simp
      next
        case (Some dp)
        obtain d p where dp: "dp = (d, p)" by (cases dp)
        from Some dp have d: "d \<in> set ds"
          by (auto dest: find_option_in_set)
        show ?thesis
        proof (cases "is_flag d")
          case f: True
          with dd True Some dp "3.prems"
          have "parse_args ds (v # rest) (AList.update (dest d) (RawFlag p) acc) largs
                  = Inr (acc', largs')"
            by simp
          moreover have "well_formed ds (AList.update (dest d) (RawFlag p) acc)"
            using "3.prems"(2,3) d f by (intro well_formed_update) auto
          ultimately show ?thesis
            using "3.IH"(1)[OF dd True Some dp[symmetric] f] "3.prems"(3) by blast
        next
          case f: False
          with dd True Some dp "3.prems"
          have "parse_args ds rest (AList.update (dest d) (RawValue v) acc) largs
                  = Inr (acc', largs')"
            by simp
          moreover have "well_formed ds (AList.update (dest d) (RawValue v) acc)"
            using "3.prems"(2,3) d f by (intro well_formed_update) auto
          ultimately show ?thesis
            using "3.IH"(2)[OF dd True Some dp[symmetric] f] "3.prems"(3) by blast
        qed
      qed
    qed
  qed
qed

lemma well_formed_empty [simp]: "well_formed ds []"
  by (simp add: well_formed_def)

text \<open>What a successful parse gives for a parameter.\<close>

lemma parse_command_value:
  assumes "parse_command py ds argv = Inr kwargs" and "d \<in> set ds" and "distinct (map dest ds)"
  shows "\<exists>acc largs v. parse_args ds argv [] [] = Inr (acc, largs) \<and> well_formed ds acc
           \<and> process_param py d acc = Inr v \<and> map_of kwargs (dest d) = Some v"
proof -
  from assms(1) obtain acc largs where p: "parse_args ds argv [] [] = Inr (acc, largs)"
    and q: "process_params py ds acc = Inr kwargs"
    by (auto simp: parse_command_def split: sum.splits prod.splits if_splits)
  from parse_args_well_formed[OF p _ assms(3)] have "well_formed ds acc"
    by simp
  with p process_params_value[OF q assms(2,3)] show ?thesis
    by blast
qed

lemma parse_command_keys:
  "parse_command py ds argv = Inr kwargs \<Longrightarrow> map fst kwargs = map dest ds"
  by (auto simp: parse_command_def process_params_keys split: sum.splits prod.splits if_splits)

text \<open>A \<^verbatim>\<open>FloatRange(min=m)\<close> option with a default in range yields a float in range.\<close>

lemma float_range_value:
  assumes "parse_command py ds argv = Inr kwargs" and "d \<in> set ds" and "distinct (map dest ds)"
    and "\<not> is_flag d" and "ptype d = FloatRange (Some m)"
    and "default_value d = VNum (PyFloat x0)" and "m \<le> x0"
  shows "\<exists>x. map_of kwargs (dest d) = Some (VNum (PyFloat x)) \<and> m \<le> x"
proof -
  from parse_command_value[OF assms(1-3)] obtain acc v where wf: "well_formed ds acc"
    and v: "process_param py d acc = Inr v" and k: "map_of kwargs (dest d) = Some v"
    by blast
  have "\<exists>x. v = VNum (PyFloat x) \<and> m \<le> x"
  proof (cases "map_of acc (dest d)")
    case None
    with v assms(6,7) show ?thesis
      by (auto simp: process_param_def)
  next
    case (Some x)
    with wf assms(2,4) obtain s where "x = RawValue s"
      unfolding well_formed_def by (cases x) auto
    with Some v assms(5) show ?thesis
      by (auto simp: process_param_def split: option.splits if_splits)
  qed
  with k show ?thesis by blast
qed

lemma distinct_basic_params: "distinct (map dest basic_params)"
  by (simp add: basic_params_def)

lemma basic_command_calls:
  assumes "basic_command py env argv w = (w', r)"
  shows "(\<exists>err. parse_command py basic_params argv = Inl err \<and> w' = w \<and> r = Some err)
       \<or> (\<exists>kwargs. parse_command py basic_params argv = Inr kwargs
             \<and> trace w' = trace w @ [TrainClassifier kwargs])"
  using assms
  by (auto simp: basic_command_def basic_def Let_def log_call_def split: sum.splits prod.splits)

subsection \<open>Hyperparameter ranges and the mode flag of basic\<close>

lemma basic_params_members:
  "\<lparr>opts = [''--learning-rate'', ''-lr''], secondary_opts = [],
      dest = ''learning_rate'', is_flag = False, ptype = FloatRange (Some 0),
      default_value = VNum (PyFloat (1/10))\<rparr> \<in> set basic_params"
  "\<lparr>opts = [''--momentum'', ''-mm''], secondary_opts = [],
      dest = ''momentum'', is_flag = False, ptype = FloatRange (Some 0),
      default_value = VNum (PyFloat (9/10))\<rparr> \<in> set basic_params"
  "\<lparr>opts = [''--weight-decay'', ''-w''], secondary_opts = [],
      dest = ''weight_decay'', is_flag = False, ptype = FloatRange (Some 0),
      default_value = VNum (PyFloat (1/10000))\<rparr> \<in> set basic_params"
  "\<lparr>opts = [''-v'', ''--validate''], secondary_opts = [''-t'', ''--train''],
      dest = ''evaluate_only'', is_flag = True, ptype = BOOL, default_value = VBool True\<rparr>
     \<in> set basic_params"
  by (simp_all add: basic_params_def)

lemma basic_accepts_nonnegative:
  assumes "parse_command py basic_params argv = Inr kwargs"
  shows "nonneg_float kwargs ''learning_rate''"
    and "nonneg_float kwargs ''momentum''"
    and "nonneg_float kwargs ''weight_decay''"
  using float_range_value[OF assms basic_params_members(1) distinct_basic_params,
      where m = 0 and ?x0.0 = "1/10"]
    float_range_value[OF assms basic_params_members(2) distinct_basic_params,
      where m = 0 and ?x0.0 = "9/10"]
    float_range_value[OF assms basic_params_members(3) distinct_basic_params,
      where m = 0 and ?x0.0 = "1/10000"]
  by (simp_all add: nonneg_float_def)

lemma looks_like_option_simps [simp]:
  "looks_like_option (CHR ''-'' # c # s)"
  "\<not> looks_like_option []"
  by (simp_all add: looks_like_option_def)

lemma basic_rejects_negative:
  assumes "float_of_str py v = Some x" and "x < 0"
  shows "parse_command py basic_params [''-lr'', v] = Inl (BadParameter ''learning_rate'')"
    and "parse_command py basic_params [''-mm'', v] = Inl (BadParameter ''momentum'')"
    and "parse_command py basic_params [''-w'', v] = Inl (BadParameter ''weight_decay'')"
  using assms
  by (simp_all add: parse_command_def basic_params_def process_param_def)

lemma basic_accepts_epsilon:
  assumes "float_of_str py v = Some x"
  shows "\<exists>kwargs. parse_command py basic_params [''-e'', v] = Inr kwargs
           \<and> map_of kwargs ''epsilon'' = Some (VNum (PyFloat x))"
  using assms
  by (simp add: parse_command_def basic_params_def process_param_def)

text \<open>
  C2, as the code has it. Every command line that \<^verbatim>\<open>basic\<close> accepts carries a learning
  rate, a momentum and a weight decay that are floats not below zero, so
  \<^verbatim>\<open>train_classifier\<close> is only ever called with such values, and a rejected command line
  leaves the world untouched; a negative value given with \<^verbatim>\<open>-lr\<close>, \<^verbatim>\<open>-mm\<close> or \<^verbatim>\<open>-w\<close> is
  a \<^verbatim>\<open>BadParameter\<close> error. Epsilon is declared with an unbounded \<^verbatim>\<open>FloatRange()\<close>: any
  float given with \<^verbatim>\<open>-e\<close> is accepted as it is.
\<close>

theorem basic_rejects_negative_hyperparameters:
  fixes env :: "'net collaborators"
  shows
   "(parse_command py basic_params argv = Inr kwargs \<longrightarrow>
       nonneg_float kwargs ''learning_rate'' \<and> nonneg_float kwargs ''momentum''
     \<and> nonneg_float kwargs ''weight_decay'')
  \<and> (basic_command py env argv w = (w', r) \<longrightarrow>
       (\<forall>kw. TrainClassifier kw \<in> set (new_calls w w') \<longrightarrow>
          nonneg_float kw ''learning_rate'' \<and> nonneg_float kw ''momentum''
        \<and> nonneg_float kw ''weight_decay''))
  \<and> (parse_command py basic_params argv = Inl err \<longrightarrow>
       basic_command py env argv w = (w, Some err))
  \<and> (float_of_str py v = Some x \<and> x < 0 \<longrightarrow>
       parse_command py basic_params [''-lr'', v] = Inl (BadParameter ''learning_rate'')
     \<and> parse_command py basic_params [''-mm'', v] = Inl (BadParameter ''momentum'')
     \<and> parse_command py basic_params [''-w'', v] = Inl (BadParameter ''weight_decay''))
  \<and> (float_of_str py v = Some x \<longrightarrow>
       (\<exists>kw. parse_command py basic_params [''-e'', v] = Inr kw
           \<and> map_of kw ''epsilon'' = Some (VNum (PyFloat x))))"
proof (intro conjI impI allI)
  assume "parse_command py basic_params argv = Inr kwargs"
  then show "nonneg_float kwargs ''learning_rate''" "nonneg_float kwargs ''momentum''"
    "nonneg_float kwargs ''weight_decay''"
    by (rule basic_accepts_nonnegative)+
next
  fix kw
  assume b: "basic_command py env argv w = (w', r)"
    and t: "TrainClassifier kw \<in> set (new_calls w w')"
  from basic_command_calls[OF b] t have "parse_command py basic_params argv = Inr kw"
    by (auto simp: new_calls_def)
  then show "nonneg_float kw ''learning_rate''" "nonneg_float kw ''momentum''"
    "nonneg_float kw ''weight_decay''"
    by (rule basic_accepts_nonnegative)+
next
  assume "parse_command py basic_params argv = Inl err"
  then show "basic_command py env argv w = (w, Some err)"
    by (simp add: basic_command_def)
next
  assume "float_of_str py v = Some x \<and> x < 0"
  then show "parse_command py basic_params [''-lr'', v] = Inl (BadParameter ''learning_rate'')"
    "parse_command py basic_params [''-mm'', v] = Inl (BadParameter ''momentum'')"
    "parse_command py basic_params [''-w'', v] = Inl (BadParameter ''weight_decay'')"
    using basic_rejects_negative by blast+
next
  assume "float_of_str py v = Some x"
  then show "\<exists>kw. parse_command py basic_params [''-e'', v] = Inr kw
           \<and> map_of kw ''epsilon'' = Some (VNum (PyFloat x))"
    by (rule basic_accepts_epsilon)
qed

lemma example_float_of_str: "float_of_str example_python ''-1'' = Some (- 1)"
  by (simp add: example_python_def)

text \<open>
  C2, as stated, fails on the code: \<^verbatim>\<open>ibp basic -e -1\<close> is accepted, with epsilon -1.
\<close>

theorem basic_accepts_negative_epsilon:
  "parse_command example_python basic_params [''-e'', ''-1''] =
     Inr [(''evaluate_only'', VBool True),
          (''dataset'', VStr ''MNIST''),
          (''model'', VStr ''small_cnn''),
          (''pretrained'', VBool False),
          (''learning_rate'', VNum (PyFloat (1/10))),
          (''momentum'', VNum (PyFloat (9/10))),
          (''weight_decay'', VNum (PyFloat (1/10000))),
          (''epochs'', VNum (PyInt 90)),
          (''batch_size'', VNum (PyInt 256)),
          (''jobs'', VNum (PyInt 4)),
          (''checkpoint'', VStr ''checkpoint.pth''),
          (''resume'', VStr []),
          (''log_dir'', VStr ''logs''),
          (''seed'', VNone),
          (''epsilon'', VNum (PyFloat (- 1)))]"
  by (simp add: parse_command_def basic_params_def process_param_def example_float_of_str)

theorem basic_rejects_negative_hyperparameters_witness:
  "float_of_str example_python ''-1'' = Some (- 1) \<and> (- 1 :: rat) < 0
   \<and> parse_command example_python basic_params [''-lr'', ''-1'']
        = Inl (BadParameter ''learning_rate'')
   \<and> parse_command example_python basic_params [''-mm'', ''-1'']
        = Inl (BadParameter ''momentum'')
   \<and> parse_command example_python basic_params [''-w'', ''-1'']
        = Inl (BadParameter ''weight_decay'')
   \<and> basic_command example_python example_env [''-lr'', ''-1''] empty_world
        = (empty_world, Some (BadParameter ''learning_rate''))
   \<and> (\<exists>kw. parse_command example_python basic_params [''-e'', ''-1''] = Inr kw
         \<and> map_of kw ''epsilon'' = Some (VNum (PyFloat (- 1)))
         \<and> nonneg_float kw ''learning_rate'' \<and> nonneg_float kw ''momentum''
         \<and> nonneg_float kw ''weight_decay'')"
proof -
  note inst = basic_rejects_negative_hyperparameters[where py = example_python
      and env = example_env and v = "''-1''" and x = "- 1" and w = empty_world]
  have neg: "(- 1 :: rat) < 0"
    by simp
  from inst[THEN conjunct2, THEN conjunct2, THEN conjunct2, THEN conjunct1]
    example_float_of_str neg
  have rej: "parse_command example_python basic_params [''-lr'', ''-1'']
        = Inl (BadParameter ''learning_rate'')
     \<and> parse_command example_python basic_params [''-mm'', ''-1'']
        = Inl (BadParameter ''momentum'')
     \<and> parse_command example_python basic_params [''-w'', ''-1'']
        = Inl (BadParameter ''weight_decay'')"
    by blast
  from inst[where argv = "[''-lr'', ''-1'']" and err = "BadParameter ''learning_rate''",
      THEN conjunct2, THEN conjunct2, THEN conjunct1] rej
  have cmd: "basic_command example_python example_env [''-lr'', ''-1''] empty_world
        = (empty_world, Some (BadParameter ''learning_rate''))"
    by blast
  from inst[THEN conjunct2, THEN conjunct2, THEN conjunct2, THEN conjunct2]
    example_float_of_str
  obtain kw where kw: "parse_command example_python basic_params [''-e'', ''-1''] = Inr kw"
    and eps: "map_of kw ''epsilon'' = Some (VNum (PyFloat (- 1)))"
    by blast
  from inst[where argv = "[''-e'', ''-1'']" and kwargs = kw, THEN conjunct1] kw
  have "nonneg_float kw ''learning_rate'' \<and> nonneg_float kw ''momentum''
         \<and> nonneg_float kw ''weight_decay''"
    by blast
  with kw eps rej cmd example_float_of_str neg show ?thesis
    by blast
qed

lemma find_option_names:
  "find_option ds a = Some (d, p) \<Longrightarrow> a \<in> set (opts d) \<or> a \<in> set (secondary_opts d)"
  by (induction ds) (auto split: if_splits)

lemma evaluate_only_decl:
  assumes "d \<in> set basic_params" and "dest d = ''evaluate_only''"
  shows "opts d = [''-v'', ''--validate'']" and "secondary_opts d = [''-t'', ''--train'']"
  using assms by (auto simp: basic_params_def)

lemma mode_flag_names:
  assumes "find_option basic_params a = Some (d, p)" and "dest d = ''evaluate_only''"
  shows "a \<in> mode_flags"
  using find_option_names[OF assms(1)]
    evaluate_only_decl[OF find_option_in_set[OF assms(1)] assms(2)]
  by (auto simp: mode_flags_def)

lemma evaluate_only_of_table:
  assumes "parse_args basic_params argv [] [] = Inr (acc, largs)"
    and "process_params py basic_params acc = Inr kwargs"
  shows "map_of kwargs ''evaluate_only''
           = Some (case map_of acc ''evaluate_only'' of
                     None \<Rightarrow> VBool True
                   | Some (RawFlag b) \<Rightarrow> VBool b
                   | Some (RawValue s) \<Rightarrow> VStr s)"
  using process_params_value[OF assms(2) basic_params_members(4) distinct_basic_params]
  by (auto simp: process_param_def split: option.splits raw.splits)

lemma basic_default_mode:
  assumes "parse_command py basic_params argv = Inr kwargs" and "set argv \<inter> mode_flags = {}"
  shows "map_of kwargs ''evaluate_only'' = Some (VBool True)"
proof -
  from assms(1) obtain acc largs where p: "parse_args basic_params argv [] [] = Inr (acc, largs)"
    and q: "process_params py basic_params acc = Inr kwargs"
    by (auto simp: parse_command_def split: sum.splits prod.splits if_splits)
  have "\<forall>a \<in> set argv. \<forall>d p. find_option basic_params a = Some (d, p)
          \<longrightarrow> dest d \<noteq> ''evaluate_only''"
    using assms(2) mode_flag_names by blast
  from parse_args_untouched[OF p this] have "map_of acc ''evaluate_only'' = None"
    by simp
  with evaluate_only_of_table[OF p q] show ?thesis
    by simp
qed

lemma find_option_train:
  "find_option basic_params ''--train''
     = Some (\<lparr>opts = [''-v'', ''--validate''], secondary_opts = [''-t'', ''--train''],
              dest = ''evaluate_only'', is_flag = True, ptype = BOOL,
              default_value = VBool True\<rparr>, False)"
  by (simp add: basic_params_def)

lemma basic_train_mode:
  assumes "parse_command py basic_params (''--train'' # rest) = Inr kwargs"
    and "set rest \<inter> mode_flags = {}"
  shows "map_of kwargs ''evaluate_only'' = Some (VBool False)"
proof -
  from assms(1) obtain acc largs where
    p: "parse_args basic_params (''--train'' # rest) [] [] = Inr (acc, largs)"
    and q: "process_params py basic_params acc = Inr kwargs"
    by (auto simp: parse_command_def split: sum.splits prod.splits if_splits)
  have un: "\<forall>a \<in> set rest. \<forall>d p. find_option basic_params a = Some (d, p)
          \<longrightarrow> dest d \<noteq> ''evaluate_only''"
    using assms(2) mode_flag_names by blast
  have "map_of acc ''evaluate_only'' = Some (RawFlag False)"
  proof (cases rest)
    case Nil
    with p show ?thesis
      by (auto simp: find_option_train)
  next
    case (Cons v rest')
    with p have "parse_args basic_params rest [(''evaluate_only'', RawFlag False)] []
                   = Inr (acc, largs)"
      by (simp add: find_option_train)
    from parse_args_untouched[OF this un] show ?thesis
      by simp
  qed
  with evaluate_only_of_table[OF p q] show ?thesis
    by simp
qed

lemma experiment_body_trains:
  fixes env :: "'net collaborators"
  assumes "experiment_body py env True i c w = (w', r)"
  shows "\<exists>kw. trace w' = trace w @ [TrainClassifier kw]
           \<and> map_of kw ''evaluate_only'' = Some (VBool False)"
proof -
  obtain d eps lr m where c: "c = (d, eps, lr, m)"
    by (cases c)
  from assms show ?thesis
    unfolding c
    by (auto simp: experiment_body_def Let_def basic_def log_call_def fill_defaults_def
          split: prod.splits)
qed

text \<open>
  C10. A command line of \<^verbatim>\<open>basic\<close> without a mode flag yields \<^verbatim>\<open>evaluate_only=True\<close>,
  the declared default, and \<^verbatim>\<open>train_classifier\<close> is called with it; \<^verbatim>\<open>--train\<close> (with
  no later mode flag) yields \<^verbatim>\<open>False\<close>; and the call that \<^verbatim>\<open>experiment\<close> makes passes
  \<^verbatim>\<open>evaluate_only=False\<close>.
\<close>

theorem basic_defaults_to_validation:
  fixes env :: "'net collaborators"
  shows
   "(parse_command py basic_params argv = Inr kwargs \<and> set argv \<inter> mode_flags = {} \<longrightarrow>
       map_of kwargs ''evaluate_only'' = Some (VBool True))
  \<and> (basic_command py env argv w = (w', r) \<and> set argv \<inter> mode_flags = {} \<longrightarrow>
       (\<forall>kw. TrainClassifier kw \<in> set (new_calls w w') \<longrightarrow>
          map_of kw ''evaluate_only'' = Some (VBool True)))
  \<and> (parse_command py basic_params (''--train'' # argv) = Inr kwargs
       \<and> set argv \<inter> mode_flags = {} \<longrightarrow>
       map_of kwargs ''evaluate_only'' = Some (VBool False))
  \<and> (experiment_body py env True i c w = (w', r) \<longrightarrow>
       (\<exists>kw. new_calls w w' = [TrainClassifier kw]
          \<and> map_of kw ''evaluate_only'' = Some (VBool False)))"
proof (intro conjI impI allI)
  assume "parse_command py basic_params argv = Inr kwargs \<and> set argv \<inter> mode_flags = {}"
  then show "map_of kwargs ''evaluate_only'' = Some (VBool True)"
    using basic_default_mode by blast
next
  fix kw
  assume a: "basic_command py env argv w = (w', r) \<and> set argv \<inter> mode_flags = {}"
    and t: "TrainClassifier kw \<in> set (new_calls w w')"
  from basic_command_calls[of py env argv w w' r] a t
  have "parse_command py basic_params argv = Inr kw"
    by (auto simp: new_calls_def)
  with a show "map_of kw ''evaluate_only'' = Some (VBool True)"
    using basic_default_mode by blast
next
  assume "parse_command py basic_params (''--train'' # argv) = Inr kwargs
       \<and> set argv \<inter> mode_flags = {}"
  then show "map_of kwargs ''evaluate_only'' = Some (VBool False)"
    using basic_train_mode by blast
next
  assume "experiment_body py env True i c w = (w', r)"
  from experiment_body_trains[OF this]
  show "\<exists>kw. new_calls w w' = [TrainClassifier kw]
          \<and> map_of kw ''evaluate_only'' = Some (VBool False)"
    by (auto simp: new_calls_def)
qed

lemma example_basic_no_arguments:
  "parse_command example_python basic_params [] =
     Inr [(''evaluate_only'', VBool True),
          (''dataset'', VStr ''MNIST''),
          (''model'', VStr ''small_cnn''),
          (''pretrained'', VBool False),
          (''learning_rate'', VNum (PyFloat (1/10))),
          (''momentum'', VNum (PyFloat (9/10))),
          (''weight_decay'', VNum (PyFloat (1/10000))),
          (''epochs'', VNum (PyInt 90)),
          (''batch_size'', VNum (PyInt 256)),
          (''jobs'', VNum (PyInt 4)),
          (''checkpoint'', VStr ''checkpoint.pth''),
          (''resume'', VStr []),
          (''log_dir'', VStr ''logs''),
          (''seed'', VNone),
          (''epsilon'', VNum (PyFloat 0))]"
  by (simp add: parse_command_def basic_params_def process_param_def)

lemma example_basic_train:
  "\<exists>kw. parse_command example_python basic_params [''--train''] = Inr kw"
  by (simp add: parse_command_def basic_params_def process_param_def)

theorem basic_defaults_to_validation_witness:
  "(\<exists>kw. parse_command example_python basic_params [] = Inr kw
        \<and> map_of kw ''evaluate_only'' = Some (VBool True))
   \<and> set ([] :: string list) \<inter> mode_flags = {}
   \<and> (\<exists>kw. new_calls empty_world (fst (basic_command example_python example_env [] empty_world))
               = [TrainClassifier kw]
        \<and> map_of kw ''evaluate_only'' = Some (VBool True))
   \<and> (\<exists>kw. parse_command example_python basic_params [''--train''] = Inr kw
        \<and> map_of kw ''evaluate_only'' = Some (VBool False))
   \<and> (\<exists>kw. new_calls empty_world
               (fst (experiment_body example_python example_env True 0
                  (''MNIST'', PyFloat (1/1000), PyFloat (1/10), ''small_cnn'') empty_world))
               = [TrainClassifier kw]
        \<and> map_of kw ''evaluate_only'' = Some (VBool False))"
proof -
  let ?b = "basic_command example_python example_env [] empty_world"
  let ?e = "experiment_body example_python example_env True 0
                  (''MNIST'', PyFloat (1/1000), PyFloat (1/10), ''small_cnn'') empty_world"
  note inst = basic_defaults_to_validation[where py = example_python and env = example_env
      and w = empty_world]
  have none: "set ([] :: string list) \<inter> mode_flags = {}"
    by simp
  obtain kw0 where kw0: "parse_command example_python basic_params [] = Inr kw0"
    using example_basic_no_arguments by blast
  from inst[where argv = "[]" and kwargs = kw0, THEN conjunct1] kw0
  have c1: "map_of kw0 ''evaluate_only'' = Some (VBool True)"
    by simp
  have tb: "new_calls empty_world (fst ?b) = [TrainClassifier kw0]"
    using kw0 by (simp add: basic_command_def basic_def Let_def new_calls_def log_call_def
        empty_world_def split: prod.splits)
  from inst[where argv = "[]" and w' = "fst ?b" and r = "snd ?b", THEN conjunct2, THEN conjunct1]
    tb
  have c2: "map_of kw0 ''evaluate_only'' = Some (VBool True)"
    by simp
  obtain kw1 where kw1: "parse_command example_python basic_params [''--train''] = Inr kw1"
    using example_basic_train by blast
  from inst[where argv = "[]" and kwargs = kw1,
      THEN conjunct2, THEN conjunct2, THEN conjunct1] kw1
  have c3: "map_of kw1 ''evaluate_only'' = Some (VBool False)"
    by simp
  from inst[where i = 0 and c = "(''MNIST'', PyFloat (1/1000), PyFloat (1/10), ''small_cnn'')"
      and w' = "fst ?e" and r = "snd ?e", THEN conjunct2, THEN conjunct2, THEN conjunct2]
  have c4: "\<exists>kw. new_calls empty_world (fst ?e) = [TrainClassifier kw]
        \<and> map_of kw ''evaluate_only'' = Some (VBool False)"
    by simp
  from kw0 c1 none tb c2 kw1 c3 c4 show ?thesis
    by blast
qed

subsection \<open>The command surface of pgd\<close>

text \<open>The attack is called with the \<open>restarts\<close>, \<open>subset\<close> and \<open>seed\<close> that \<^verbatim>\<open>pgd\<close> was given.\<close>

lemma pgd_run_calls:
  fixes env :: "'net collaborators"
  assumes "pgd_run env s r sd path e w = (w', res)"
  shows "\<exists>cs. trace w' = trace w @ cs
      \<and> (\<forall>kw. ComputeRobustness kw \<in> set cs \<longrightarrow>
            kw_restarts kw = r \<and> kw_subset kw = s \<and> kw_subset_seed kw = sd)"
proof -
  obtain d eps m lr te where e: "e = (d, eps, m, lr, te)"
    by (cases e)
  show ?thesis
  proof (cases res)
    case None
    from pgd_run_success[OF assms[unfolded e None]] show ?thesis
      by (elim exE conjE) (rule exI, erule conjI, simp)
  next
    case (Some err)
    with assms show ?thesis
      unfolding e
      by (auto simp: pgd_run_def Let_def split: option.splits sum.splits)
  qed
qed

lemma pgd_body_calls:
  fixes env :: "'net collaborators"
  assumes "pgd_body py env run s r sd i e w = (w', res)"
  shows "\<exists>cs. trace w' = trace w @ cs
      \<and> (\<forall>kw. ComputeRobustness kw \<in> set cs \<longrightarrow>
            kw_restarts kw = r \<and> kw_subset kw = s \<and> kw_subset_seed kw = sd)"
proof -
  obtain d eps m lr te where e: "e = (d, eps, m, lr, te)"
    by (cases e)
  show ?thesis
  proof (cases run)
    case True
    with assms have "pgd_run env s r sd (checkpoint_file py e) e
       (print [str_of_num py (PyInt (int i)), d @ ''-'' @ m @ ''-'' @ str_of_num py eps,
               str_of_num py lr, str_of_num py te] w) = (w', res)"
      by (simp add: e pgd_body_run)
    from pgd_run_calls[OF this] show ?thesis
      by simp
  next
    case False
    with assms show ?thesis
      unfolding e by (auto simp: pgd_body_show)
  qed
qed

lemma pgd_loop_calls:
  fixes env :: "'net collaborators"
  assumes "pgd_loop py env run index s r sd xs w = (w', res)"
  shows "\<exists>cs. trace w' = trace w @ cs
      \<and> (\<forall>kw. ComputeRobustness kw \<in> set cs \<longrightarrow>
            kw_restarts kw = r \<and> kw_subset kw = s \<and> kw_subset_seed kw = sd)"
  using assms
proof (induction xs arbitrary: w)
  case Nil
  then show ?case by simp
next
  case (Cons x xs)
  obtain i e where x: "x = (i, e)"
    by (cases x)
  show ?case
  proof (cases "index \<noteq> None \<and> Some i \<noteq> index")
    case True
    with Cons.prems have "pgd_loop py env run index s r sd xs w = (w', res)"
      by (simp add: x)
    then show ?thesis by (rule Cons.IH)
  next
    case False
    obtain w1 r1 where b: "pgd_body py env run s r sd i e w = (w1, r1)"
      by (cases "pgd_body py env run s r sd i e w")
    from pgd_body_calls[OF b] obtain cs1 where t1: "trace w1 = trace w @ cs1"
      and c1: "\<forall>kw. ComputeRobustness kw \<in> set cs1 \<longrightarrow>
            kw_restarts kw = r \<and> kw_subset kw = s \<and> kw_subset_seed kw = sd"
      by blast
    show ?thesis
    proof (cases r1)
      case (Some err)
      with Cons.prems False b have "w' = w1"
        by (auto simp: x)
      with t1 c1 show ?thesis by blast
    next
      case None
      with Cons.prems False b have "pgd_loop py env run index s r sd xs w1 = (w', res)"
        by (auto simp: x)
      from Cons.IH[OF this] obtain cs where "trace w' = trace w1 @ cs"
        and "\<forall>kw. ComputeRobustness kw \<in> set cs \<longrightarrow>
            kw_restarts kw = r \<and> kw_subset kw = s \<and> kw_subset_seed kw = sd"
        by blast
      with t1 c1 show ?thesis
        by (intro exI[of _ "cs1 @ cs"]) auto
    qed
  qed
qed

lemma run_index_keys:
  assumes "parse_command py run_index_params argv = Inr kwargs"
  shows "map_of kwargs ''subset'' = None" and "map_of kwargs ''restarts'' = None"
    and "map_of kwargs ''seed'' = None"
proof -
  from parse_command_keys[OF assms] have "map fst kwargs = [''run'', ''index'']"
    by (simp add: run_index_params_def)
  then have "fst ` set kwargs = {''run'', ''index''}"
    by (metis list.set_map list.simps(15) empty_set)
  then show "map_of kwargs ''subset'' = None" and "map_of kwargs ''restarts'' = None"
    and "map_of kwargs ''seed'' = None"
    by (auto simp: map_of_eq_None_iff)
qed

text \<open>
  C4, as the code has it. \<open>restarts\<close>, \<open>subset\<close> and \<open>seed\<close> are parameters of the function
  \<^verbatim>\<open>pgd\<close>, and every attack it runs is called with the values it was given. The command
  declares only the run flag and the index, so on every accepted command line the function
  is called with \<^verbatim>\<open>subset=None\<close>, \<^verbatim>\<open>restarts=1\<close>, \<^verbatim>\<open>seed=None\<close>, and every attack of a
  command-line invocation is called with these: one restart, no subset, no seed.
\<close>

theorem pgd_command_fixed_attack_parameters:
  fixes env :: "'net collaborators"
  shows
   "(pgd py env run index subset' restarts seed w = (w', r) \<longrightarrow>
       (\<forall>kw. ComputeRobustness kw \<in> set (new_calls w w') \<longrightarrow>
          kw_restarts kw = restarts \<and> kw_subset kw = subset' \<and> kw_subset_seed kw = seed))
  \<and> (parse_command py run_index_params argv = Inr kwargs \<longrightarrow>
       pgd_command py env argv w
         = pgd py env (kwarg_flag kwargs ''run'') (kwarg_index kwargs ''index'')
             VNone (VNum (PyInt 1)) VNone w)
  \<and> (pgd_command py env argv w = (w', r) \<longrightarrow>
       (\<forall>kw. ComputeRobustness kw \<in> set (new_calls w w') \<longrightarrow>
          kw_restarts kw = VNum (PyInt 1) \<and> kw_subset kw = VNone \<and> kw_subset_seed kw = VNone))"
proof (intro conjI impI)
  assume "pgd py env run index subset' restarts seed w = (w', r)"
  from pgd_loop_calls[OF this[unfolded pgd_def]]
  show "\<forall>kw. ComputeRobustness kw \<in> set (new_calls w w') \<longrightarrow>
          kw_restarts kw = restarts \<and> kw_subset kw = subset' \<and> kw_subset_seed kw = seed"
    by (auto simp: new_calls_def)
next
  assume p: "parse_command py run_index_params argv = Inr kwargs"
  from run_index_keys[OF p] p
  show "pgd_command py env argv w
         = pgd py env (kwarg_flag kwargs ''run'') (kwarg_index kwargs ''index'')
             VNone (VNum (PyInt 1)) VNone w"
    by (simp add: pgd_command_def pgd_callback_def kwarg_def)
next
  assume c: "pgd_command py env argv w = (w', r)"
  show "\<forall>kw. ComputeRobustness kw \<in> set (new_calls w w') \<longrightarrow>
          kw_restarts kw = VNum (PyInt 1) \<and> kw_subset kw = VNone \<and> kw_subset_seed kw = VNone"
  proof (cases "parse_command py run_index_params argv")
    case (Inl err)
    with c have "w' = w"
      by (simp add: pgd_command_def)
    then show ?thesis
      by (simp add: new_calls_def)
  next
    case (Inr kwargs)
    from run_index_keys[OF Inr] Inr c
    have "pgd py env (kwarg_flag kwargs ''run'') (kwarg_index kwargs ''index'')
             VNone (VNum (PyInt 1)) VNone w = (w', r)"
      by (simp add: pgd_command_def pgd_callback_def kwarg_def)
    from pgd_loop_calls[OF this[unfolded pgd_def]] show ?thesis
      by (auto simp: new_calls_def)
  qed
qed

text \<open>
  C4, as stated, fails on the code: the command has no option for the number of restarts
  (nor for the subset or the seed); \<^verbatim>\<open>ibp pgd --restarts 5\<close> is a usage error.
\<close>

theorem pgd_has_no_restarts_option:
  "parse_command example_python run_index_params [''--restarts'', ''5'']
     = Inl (NoSuchOption ''--restarts'')"
  by (simp add: parse_command_def run_index_params_def looks_like_option_def)

lemma example_parse_run_index:
  "parse_command example_python run_index_params [''--run'', ''--index'', ''0'']
     = Inr [(''run'', VBool True), (''index'', VNum (PyInt 0))]"
  by (simp add: parse_command_def run_index_params_def looks_like_option_def
      process_param_def example_python_def)

theorem pgd_command_fixed_attack_parameters_witness:
  "parse_command example_python run_index_params [''--run'', ''--index'', ''0'']
     = Inr [(''run'', VBool True), (''index'', VNum (PyInt 0))]
   \<and> pgd_command example_python example_env [''--run'', ''--index'', ''0''] example_world
     = (example_world1, None)
   \<and> ComputeRobustness \<lparr>kw_net = 2, kw_dataset = ''MNIST'', kw_device = ''cpu'',
            kw_attack_name = ''PGD'', kw_restarts = VNum (PyInt 1), kw_subset = VNone,
            kw_subset_seed = VNone,
            kw_attack_kwargs = [(''epsilon'', VNum (PyFloat (1/10)))]\<rparr>
       \<in> set (new_calls example_world example_world1)
   \<and> kw_restarts \<lparr>kw_net = 2 :: nat, kw_dataset = ''MNIST'', kw_device = ''cpu'',
            kw_attack_name = ''PGD'', kw_restarts = VNum (PyInt 1), kw_subset = VNone,
            kw_subset_seed = VNone,
            kw_attack_kwargs = [(''epsilon'', VNum (PyFloat (1/10)))]\<rparr> = VNum (PyInt 1)"
proof -
  note inst = pgd_command_fixed_attack_parameters[where py = example_python
      and env = example_env and argv = "[''--run'', ''--index'', ''0'']" and w = example_world]
  have flag: "kwarg_flag [(''run'', VBool True), (''index'', VNum (PyInt 0))] ''run''"
    and idx: "kwarg_index [(''run'', VBool True), (''index'', VNum (PyInt 0))] ''index'' = Some 0"
    by (simp_all add: kwarg_flag_def kwarg_index_def)
  from inst[THEN conjunct2, THEN conjunct1] example_parse_run_index
  have "pgd_command example_python example_env [''--run'', ''--index'', ''0''] example_world
      = pgd example_python example_env True (Some 0) VNone (VNum (PyInt 1)) VNone example_world"
    by (simp only: flag idx simp_thms)
  then have cmd: "pgd_command example_python example_env [''--run'', ''--index'', ''0'']
      example_world = (example_world1, None)"
    by (simp only: example_pgd_select example_world1_run)
  from inst[where w' = example_world1 and r = None, THEN conjunct2, THEN conjunct2] cmd
  have all: "\<forall>kw. ComputeRobustness kw \<in> set (new_calls example_world example_world1) \<longrightarrow>
          kw_restarts kw = VNum (PyInt 1) \<and> kw_subset kw = VNone \<and> kw_subset_seed kw = VNone"
    by blast
  have "new_calls example_world example_world1
      = [ModelCtor ''small_cnn'', FitToDataset 0 ''MNIST'',
         TorchLoad ''dm_torch/mnist-small-0.03.pth'', LoadStateDict 1 (VDict []),
         ComputeRobustness \<lparr>kw_net = 2, kw_dataset = ''MNIST'', kw_device = ''cpu'',
            kw_attack_name = ''PGD'', kw_restarts = VNum (PyInt 1), kw_subset = VNone,
            kw_subset_seed = VNone,
            kw_attack_kwargs = [(''epsilon'', VNum (PyFloat (1/10)))]\<rparr>,
         TorchSave (VDict
          [(''state_dict'', VDict []),
           (''PGD'', VList [attack_record VNone VNone (VNum (PyInt 1)) (PyFloat (1/10))
                             example_results])])
           ''dm_torch/mnist-small-0.03.pth'']"
    unfolding example_world1_def experiment0_def
    by (simp only: example_run0 fst_conv) (simp add: new_calls_def example_world_def)
  then have ex: "ComputeRobustness \<lparr>kw_net = 2, kw_dataset = ''MNIST'', kw_device = ''cpu'',
            kw_attack_name = ''PGD'', kw_restarts = VNum (PyInt 1), kw_subset = VNone,
            kw_subset_seed = VNone,
            kw_attack_kwargs = [(''epsilon'', VNum (PyFloat (1/10)))]\<rparr>
       \<in> set (new_calls example_world example_world1)"
    by simp
  from all ex have "kw_restarts \<lparr>kw_net = 2 :: nat, kw_dataset = ''MNIST'', kw_device = ''cpu'',
            kw_attack_name = ''PGD'', kw_restarts = VNum (PyInt 1), kw_subset = VNone,
            kw_subset_seed = VNone,
            kw_attack_kwargs = [(''epsilon'', VNum (PyFloat (1/10)))]\<rparr> = VNum (PyInt 1)"
    by blast
  with example_parse_run_index cmd ex show ?thesis
    by blast
qed

end
